theory Spec2Isabelle
  imports Complex_Main
begin

section \<open>JavaScript values\<close>

text \<open>
  Strings are byte lists holding the UTF-8 encoding of the JavaScript string; the
  literals of the source are ASCII apart from the em dash that \<open>formatDate\<close> returns for a
  missing date. A JavaScript number is \<open>NaN\<close>, an infinity or a finite value; \<open>null\<close> and
  \<open>undefined\<close> are \<open>None\<close> of an option type.
\<close>

datatype jsnumber = NaN | Fin rat | PosInfinity | NegInfinity

definition emDash :: string where
  "emDash = [CHR 0xE2, CHR 0x80, CHR 0x94]"

subsection \<open>\<open>String.prototype.trim\<close>\<close>

text \<open>
  The code points ECMAScript strips: WhiteSpace (TAB, VT, FF, SP, NBSP, ZWNBSP and the
  category Zs) and LineTerminator (LF, CR, LS, PS), each in its UTF-8 encoding.
\<close>

definition whiteSpace :: "string list" where
  "whiteSpace =
    [[CHR 0x09], [CHR 0x0A], [CHR 0x0B], [CHR 0x0C], [CHR 0x0D], [CHR 0x20],
     [CHR 0xC2, CHR 0xA0],
     [CHR 0xE1, CHR 0x9A, CHR 0x80],
     [CHR 0xE2, CHR 0x80, CHR 0x80], [CHR 0xE2, CHR 0x80, CHR 0x81],
     [CHR 0xE2, CHR 0x80, CHR 0x82], [CHR 0xE2, CHR 0x80, CHR 0x83],
     [CHR 0xE2, CHR 0x80, CHR 0x84], [CHR 0xE2, CHR 0x80, CHR 0x85],
     [CHR 0xE2, CHR 0x80, CHR 0x86], [CHR 0xE2, CHR 0x80, CHR 0x87],
     [CHR 0xE2, CHR 0x80, CHR 0x88], [CHR 0xE2, CHR 0x80, CHR 0x89],
     [CHR 0xE2, CHR 0x80, CHR 0x8A],
     [CHR 0xE2, CHR 0x80, CHR 0xA8], [CHR 0xE2, CHR 0x80, CHR 0xA9],
     [CHR 0xE2, CHR 0x80, CHR 0xAF],
     [CHR 0xE2, CHR 0x81, CHR 0x9F],
     [CHR 0xE3, CHR 0x80, CHR 0x80],
     [CHR 0xEF, CHR 0xBB, CHR 0xBF]]"

definition wsLen :: "string list \<Rightarrow> string \<Rightarrow> nat" where
  "wsLen tbl s =
    (if take 1 s \<in> set tbl then 1
     else if take 2 s \<in> set tbl then 2
     else if take 3 s \<in> set tbl then 3
     else 0)"

fun dropWs :: "string list \<Rightarrow> string \<Rightarrow> string" where
  "dropWs tbl [] = []"
| "dropWs tbl (c # cs) =
    (if wsLen tbl (c # cs) = 0 then c # cs
     else dropWs tbl (drop (wsLen tbl (c # cs) - 1) cs))"

definition trimStart :: "string \<Rightarrow> string" where
  "trimStart s = dropWs whiteSpace s"

definition trimEnd :: "string \<Rightarrow> string" where
  "trimEnd s = rev (dropWs (map rev whiteSpace) (rev s))"

definition trim :: "string \<Rightarrow> string" where
  "trim s = trimEnd (trimStart s)"

section \<open>Dates (\<open>src/lib/dates\<close>)\<close>

subsection \<open>The ECMAScript time functions the module calls\<close>

text \<open>
  A \<open>Date\<close> holds a time value: milliseconds since the epoch, an integer of magnitude at
  most \<open>8.64e15\<close>, or NaN (\<open>None\<close>). The functions below are those of ECMA-262, section
  "Time Values and Time Range" and following, under their names there.
\<close>

definition msPerDay :: int where
  "msPerDay = 86400000"

definition maxTime :: int where
  "maxTime = 8640000000000000"

definition TimeClip :: "int \<Rightarrow> int option" where
  "TimeClip t = (if \<bar>t\<bar> > maxTime then None else Some t)"

definition Day :: "int \<Rightarrow> int" where
  "Day t = t div msPerDay"

definition DaysInYear :: "int \<Rightarrow> int" where
  "DaysInYear y =
    (if y mod 4 \<noteq> 0 then 365
     else if y mod 100 \<noteq> 0 then 366
     else if y mod 400 \<noteq> 0 then 365
     else 366)"

definition DayFromYear :: "int \<Rightarrow> int" where
  "DayFromYear y =
    365 * (y - 1970) + (y - 1969) div 4 - (y - 1901) div 100 + (y - 1601) div 400"

text \<open>
  \<open>YearFromTime t\<close> is the largest \<open>y\<close> with \<open>DayFromYear y \<le> Day t\<close>: the estimate from the
  mean length of a year is off by at most one, and is corrected.
\<close>

definition YearFromTime :: "int \<Rightarrow> int" where
  "YearFromTime t =
    (let d = Day t; y0 = 1970 + (400 * d) div 146097
     in if DayFromYear (y0 + 1) \<le> d then y0 + 1
        else if d < DayFromYear y0 then y0 - 1
        else y0)"

definition leapDays :: "int \<Rightarrow> int" where
  "leapDays y = (if DaysInYear y = 366 then 1 else 0)"

definition InLeapYear :: "int \<Rightarrow> int" where
  "InLeapYear t = leapDays (YearFromTime t)"

definition DayWithinYear :: "int \<Rightarrow> int" where
  "DayWithinYear t = Day t - DayFromYear (YearFromTime t)"

definition monthStart :: "int \<Rightarrow> int \<Rightarrow> int" where
  "monthStart m L =
    (if m = 0 then 0 else if m = 1 then 31 else if m = 2 then 59 + L
     else if m = 3 then 90 + L else if m = 4 then 120 + L else if m = 5 then 151 + L
     else if m = 6 then 181 + L else if m = 7 then 212 + L else if m = 8 then 243 + L
     else if m = 9 then 273 + L else if m = 10 then 304 + L else 334 + L)"

definition MonthFromTime :: "int \<Rightarrow> int" where
  "MonthFromTime t =
    (let d = DayWithinYear t; L = InLeapYear t
     in if d < 31 then 0 else if d < 59 + L then 1 else if d < 90 + L then 2
        else if d < 120 + L then 3 else if d < 151 + L then 4 else if d < 181 + L then 5
        else if d < 212 + L then 6 else if d < 243 + L then 7 else if d < 273 + L then 8
        else if d < 304 + L then 9 else if d < 334 + L then 10 else 11)"

definition DateFromTime :: "int \<Rightarrow> int" where
  "DateFromTime t =
    DayWithinYear t - monthStart (MonthFromTime t) (InLeapYear t) + 1"

definition MakeDay :: "int \<Rightarrow> int \<Rightarrow> int \<Rightarrow> int" where
  "MakeDay year month date =
    (let ym = year + month div 12; mn = month mod 12
     in DayFromYear ym + monthStart mn (leapDays ym) + date - 1)"

definition MakeDate :: "int \<Rightarrow> int \<Rightarrow> int" where
  "MakeDate day time = day * msPerDay + time"

text \<open>\<open>Date.UTC(year, month, date)\<close>: a year from 0 to 99 means 1900 + year.\<close>

definition DateUTC :: "int \<Rightarrow> int \<Rightarrow> int \<Rightarrow> int option" where
  "DateUTC year month date =
    (let yr = (if 0 \<le> year \<and> year \<le> 99 then 1900 + year else year)
     in TimeClip (MakeDate (MakeDay yr month date) 0))"

text \<open>
  \<open>new Date(value)\<close> for a string: how a string is read is left to the engine beyond the
  ISO format, so the reading is the parameter \<open>parseDate\<close> (\<open>None\<close> for a string that is
  not a date); the constructor clips what it read.
\<close>

definition newDate :: "(string \<Rightarrow> int option) \<Rightarrow> string \<Rightarrow> int option" where
  "newDate parseDate v = (case parseDate v of None \<Rightarrow> None | Some t \<Rightarrow> TimeClip t)"

text \<open>
  \<open>Math.round(a / b)\<close> for integers \<open>a\<close> and \<open>b > 0\<close>: the nearest integer, a half rounded
  up.
\<close>

definition roundDiv :: "int \<Rightarrow> int \<Rightarrow> int" where
  "roundDiv a b = (2 * a + b) div (2 * b)"

subsection \<open>\<open>daysUntil\<close> and \<open>formatDate\<close>\<close>

text \<open>\<open>now\<close> is the time value of \<open>new Date()\<close>, the clock.\<close>

definition utcMidnight :: "int \<Rightarrow> int option" where
  "utcMidnight t = DateUTC (YearFromTime t) (MonthFromTime t) (DateFromTime t)"

definition daysUntil :: "(string \<Rightarrow> int option) \<Rightarrow> int \<Rightarrow> string option \<Rightarrow> jsnumber option" where
  "daysUntil parseDate now v =
    (case v of
       None \<Rightarrow> None
     | Some s \<Rightarrow>
         if s = [] then None
         else (case newDate parseDate s of
                 None \<Rightarrow> None
               | Some targetDate \<Rightarrow>
                   Some (case (utcMidnight targetDate, utcMidnight now) of
                           (Some target, Some today) \<Rightarrow>
                             Fin (of_int (roundDiv (target - today) msPerDay))
                         | _ \<Rightarrow> NaN)))"

datatype Locale = en | es

text \<open>
  \<open>fmt tag t\<close> is \<open>Intl.DateTimeFormat(tag, ...).format\<close> at the time value \<open>t\<close>, \<open>None\<close> when
  it throws.
\<close>

definition formatDate ::
  "(string \<Rightarrow> int option) \<Rightarrow> (string \<Rightarrow> int \<Rightarrow> string option) \<Rightarrow> string option \<Rightarrow> Locale \<Rightarrow> string" where
  "formatDate parseDate fmt v locale =
    (case v of
       None \<Rightarrow> emDash
     | Some s \<Rightarrow>
         if s = [] then emDash
         else (case newDate parseDate s of
                 None \<Rightarrow> emDash
               | Some date \<Rightarrow>
                   (case fmt (if locale = es then ''es-MX'' else ''en-US'') date of
                      None \<Rightarrow> emDash
                    | Some text \<Rightarrow> text)))"

section \<open>Requirements and their presentation status\<close>

text \<open>
  The fields of \<open>Requirement\<close> the controller decides on; the record is extensible, the
  other fields ride along. \<open>status\<close> is optional because \<open>deriveUiStatus\<close> reads it with a
  default.
\<close>

record requirement =
  id' :: string
  status :: "string option"
  archive_state :: "string option"
  due_date :: "string option"

datatype UiStatus = OPEN | NEEDS_REVIEW | NEEDS_TRIAGE | COMPLETED | ARCHIVED | OVERDUE

text \<open>\<open>typeof daysRemaining === "number" && daysRemaining < 0\<close>\<close>

definition isNegativeNumber :: "jsnumber option \<Rightarrow> bool" where
  "isNegativeNumber d =
    (case d of
       None \<Rightarrow> False
     | Some NaN \<Rightarrow> False
     | Some (Fin q) \<Rightarrow> q < 0
     | Some PosInfinity \<Rightarrow> False
     | Some NegInfinity \<Rightarrow> True)"

definition deriveUiStatus ::
  "(string \<Rightarrow> int option) \<Rightarrow> int \<Rightarrow> 'a requirement_scheme \<Rightarrow> UiStatus" where
  "deriveUiStatus parseDate now record =
    (if archive_state record = Some ''archived'' \<or> archive_state record = Some ''deleted''
     then ARCHIVED
     else if status record = Some ''ARCHIVED'' then ARCHIVED
     else
       let st = (case status record of None \<Rightarrow> ''OPEN'' | Some s \<Rightarrow> s);
           daysRemaining = daysUntil parseDate now (due_date record)
       in if st = ''PENDING_REVIEW''
          then (if isNegativeNumber daysRemaining then OVERDUE else NEEDS_TRIAGE)
          else if st = ''DONE'' \<or> st = ''READY''
          then (if isNegativeNumber daysRemaining then OVERDUE else COMPLETED)
          else if st = ''REVIEW''
          then (if isNegativeNumber daysRemaining then OVERDUE else NEEDS_REVIEW)
          else if isNegativeNumber daysRemaining then OVERDUE
          else OPEN)"

section \<open>The mirror and the selection (\<open>RequirementsClient\<close>)\<close>

text \<open>
  The two pieces of the component's state that the mutations and the effects below
  write: \<open>requirementRows\<close>, the mirror of the current page, and \<open>selectedIds\<close>.
\<close>

record controller =
  requirementRows :: "requirement list"
  selectedIds :: "string list"

text \<open>
  The effect that depends on \<open>requirementRows\<close>:
  \<open>prev.filter((id) => requirementRows.some((item) => item.id === id && item.status === "PENDING_REVIEW"))\<close>
\<close>

definition purgeSelection :: "requirement list \<Rightarrow> string list \<Rightarrow> string list" where
  "purgeSelection rows prev =
    filter (\<lambda>i. list_ex (\<lambda>item. id' item = i \<and> status item = Some ''PENDING_REVIEW'') rows) prev"

definition showSelectionColumn :: "bool \<Rightarrow> requirement list \<Rightarrow> bool" where
  "showSelectionColumn triageFilter rows =
    (triageFilter \<or> list_ex (\<lambda>item. status item = Some ''PENDING_REVIEW'') rows)"

text \<open>
  The effects that run after a render with new rows, in the order of the source: the
  purge, then the reset of the selection when the selection column is gone and the
  rendered selection was not empty. \<open>triageFilter\<close> is
  \<open>selectedStatusFilters.includes("triage")\<close>.
\<close>

definition selectionEffects :: "bool \<Rightarrow> requirement list \<Rightarrow> string list \<Rightarrow> string list" where
  "selectionEffects triageFilter rows prev =
    (let purged = purgeSelection rows prev
     in if \<not> showSelectionColumn triageFilter rows \<and> length prev > 0 then [] else purged)"

definition runEffects :: "bool \<Rightarrow> controller \<Rightarrow> controller" where
  "runEffects triageFilter st =
    st\<lparr>selectedIds := selectionEffects triageFilter (requirementRows st) (selectedIds st)\<rparr>"

text \<open>\<open>setRequirementRows(rows)\<close>, the render and its effects.\<close>

definition setRequirementRows :: "bool \<Rightarrow> requirement list \<Rightarrow> controller \<Rightarrow> controller" where
  "setRequirementRows triageFilter rows st = runEffects triageFilter (st\<lparr>requirementRows := rows\<rparr>)"

text \<open>\<open>refreshAndHydrate\<close>, given what the revalidation returned.\<close>

definition hydrate :: "bool \<Rightarrow> requirement list option \<Rightarrow> controller \<Rightarrow> controller" where
  "hydrate triageFilter latest st =
    (case latest of None \<Rightarrow> st | Some items \<Rightarrow> setRequirementRows triageFilter items st)"

text \<open>\<open>setRequirementRows((prev) => prev.map((row) => (row.id === updated.id ? updated : row)))\<close>\<close>

definition upsertRow :: "bool \<Rightarrow> requirement \<Rightarrow> controller \<Rightarrow> controller" where
  "upsertRow triageFilter updated st =
    setRequirementRows triageFilter
      (map (\<lambda>row. if id' row = id' updated then updated else row) (requirementRows st)) st"

definition toggleSelection :: "requirement \<Rightarrow> bool \<Rightarrow> controller \<Rightarrow> controller" where
  "toggleSelection r checked st =
    (if status r \<noteq> Some ''PENDING_REVIEW'' then st
     else st\<lparr>selectedIds :=
       (if checked
        then (if id' r \<in> set (selectedIds st) then selectedIds st else selectedIds st @ [id' r])
        else filter (\<lambda>i. i \<noteq> id' r) (selectedIds st))\<rparr>)"

section \<open>The filter codec\<close>

datatype DueFilter = overdue | due7 | due30

datatype StatusFilter = active | completed | archived | triage

definition dueFilterOptions :: "DueFilter list" where
  "dueFilterOptions = [overdue, due7, due30]"

text \<open>The string each member of the union type \<open>DueFilter\<close> is.\<close>

fun dueToken :: "DueFilter \<Rightarrow> string" where
  "dueToken overdue = ''overdue''"
| "dueToken due7 = ''due7''"
| "dueToken due30 = ''due30''"

fun STATUS_QUERY_MAP :: "StatusFilter \<Rightarrow> string list" where
  "STATUS_QUERY_MAP active = [''OPEN'', ''REVIEW'']"
| "STATUS_QUERY_MAP completed = [''DONE'', ''READY'']"
| "STATUS_QUERY_MAP archived = []"
| "STATUS_QUERY_MAP triage = [''PENDING_REVIEW'']"

subsection \<open>\<open>URLSearchParams\<close>, \<open>split\<close>, \<open>join\<close>, \<open>Set\<close>\<close>

text \<open>
  A \<open>URLSearchParams\<close> is its list of pairs: \<open>get\<close> reads the first pair of a name,
  \<open>delete\<close> removes every pair of it, \<open>set\<close> overwrites the first and removes the others,
  or appends.
\<close>

type_synonym searchParams = "(string \<times> string) list"

definition paramsGet :: "string \<Rightarrow> searchParams \<Rightarrow> string option" where
  "paramsGet name ps = map_of ps name"

definition paramsDelete :: "string \<Rightarrow> searchParams \<Rightarrow> searchParams" where
  "paramsDelete name ps = filter (\<lambda>p. fst p \<noteq> name) ps"

fun paramsSet :: "string \<Rightarrow> string \<Rightarrow> searchParams \<Rightarrow> searchParams" where
  "paramsSet name v [] = [(name, v)]"
| "paramsSet name v (p # ps) =
    (if fst p = name then (name, v) # paramsDelete name ps else p # paramsSet name v ps)"

fun splitOn :: "char \<Rightarrow> string \<Rightarrow> string list" where
  "splitOn sep [] = [[]]"
| "splitOn sep (c # cs) =
    (if c = sep then [] # splitOn sep cs
     else (case splitOn sep cs of [] \<Rightarrow> [[c]] | t # ts \<Rightarrow> (c # t) # ts))"

fun join :: "string \<Rightarrow> string list \<Rightarrow> string" where
  "join sep [] = []"
| "join sep [x] = x"
| "join sep (x # y # ys) = x @ sep @ join sep (y # ys)"

text \<open>\<open>Set.prototype.add\<close> on the insertion-ordered elements of a \<open>Set\<close>.\<close>

definition setAdd :: "'a \<Rightarrow> 'a list \<Rightarrow> 'a list" where
  "setAdd x xs = (if x \<in> set xs then xs else xs @ [x])"

definition addAll :: "'a list \<Rightarrow> 'a list \<Rightarrow> 'a list" where
  "addAll vs xs = foldl (\<lambda>acc v. setAdd v acc) xs vs"

subsection \<open>Decoding\<close>

definition parseDueFilters :: "searchParams option \<Rightarrow> DueFilter list" where
  "parseDueFilters params =
    (case params of
       None \<Rightarrow> []
     | Some ps \<Rightarrow>
         (case paramsGet ''due'' ps of
            None \<Rightarrow> []
          | Some raw \<Rightarrow>
              if raw = [] then []
              else let tokens = map trim (splitOn (CHR '','') raw)
                   in filter (\<lambda>option. dueToken option \<in> set tokens) dueFilterOptions))"

subsection \<open>Numbers in the query string\<close>

definition isDigit :: "char \<Rightarrow> bool" where
  "isDigit c = (48 \<le> (of_char c :: nat) \<and> (of_char c :: nat) \<le> 57)"

definition digitsValue :: "string \<Rightarrow> int" where
  "digitsValue ds = foldl (\<lambda>acc c. 10 * acc + (int (of_char c) - 48)) 0 ds"

text \<open>
  The comparison \<open><\<close> and \<open>Math.max\<close>, \<open>Math.min\<close> on numbers: a comparison with NaN is
  false, and NaN in either argument gives NaN.
\<close>

fun jsLess :: "jsnumber \<Rightarrow> jsnumber \<Rightarrow> bool" where
  "jsLess (Fin p) (Fin q) = (p < q)"
| "jsLess (Fin p) PosInfinity = True"
| "jsLess NegInfinity (Fin q) = True"
| "jsLess NegInfinity PosInfinity = True"
| "jsLess a b = False"

definition MathMax :: "jsnumber \<Rightarrow> jsnumber \<Rightarrow> jsnumber" where
  "MathMax a b = (if a = NaN \<or> b = NaN then NaN else if jsLess a b then b else a)"

definition MathMin :: "jsnumber \<Rightarrow> jsnumber \<Rightarrow> jsnumber" where
  "MathMin a b = (if a = NaN \<or> b = NaN then NaN else if jsLess b a then b else a)"

fun jsNegate :: "jsnumber \<Rightarrow> jsnumber" where
  "jsNegate NaN = NaN"
| "jsNegate (Fin q) = Fin (- q)"
| "jsNegate PosInfinity = NegInfinity"
| "jsNegate NegInfinity = PosInfinity"

fun bitLength :: "nat \<Rightarrow> nat" where
  "bitLength n = (if n = 0 then 0 else Suc (bitLength (n div 2)))"

declare bitLength.simps [simp del]

text \<open>
  The Number value of a natural number: the number itself up to 53 bits, beyond that
  the nearest multiple of the power of two that leaves 53 bits, a tie going to the even
  one, and infinity from \<open>2^1024\<close> on.
\<close>

definition toDouble :: "nat \<Rightarrow> jsnumber" where
  "toDouble n =
    (if bitLength n \<le> 53 then Fin (of_nat n)
     else
       let e = bitLength n - 53;
           q = n div 2 ^ e;
           r = n mod 2 ^ e;
           half = 2 ^ (e - 1);
           m = (if half < r \<or> (r = half \<and> odd q) then q + 1 else q)
       in if 2 ^ 1024 \<le> m * 2 ^ e then PosInfinity else Fin (of_nat (m * 2 ^ e)))"

text \<open>
  \<open>Number.parseInt(s, 10)\<close>: leading white space, a sign, then the longest run of
  digits; no digit gives NaN, and the integer the digits denote is returned as a Number.
  (Past the twentieth digit ECMA-262 lets an engine read a digit as 0; the digits are
  read as they are here.)
\<close>

definition parseInt10 :: "string \<Rightarrow> jsnumber" where
  "parseInt10 input =
    (let s = trimStart input;
         negative = (take 1 s = ''-'');
         body = (if take 1 s = ''-'' \<or> take 1 s = ''+'' then drop 1 s else s);
         ds = takeWhile isDigit body
     in if ds = [] then NaN
        else if negative then jsNegate (toDouble (nat (digitsValue ds)))
        else toDouble (nat (digitsValue ds)))"

fun showNat :: "nat \<Rightarrow> string" where
  "showNat n =
    (if n < 10 then [char_of (48 + n)] else showNat (n div 10) @ [char_of (48 + n mod 10)])"

text \<open>\<open>String(n)\<close> for an integer \<open>n\<close> (of magnitude below \<open>10^21\<close>).\<close>

definition showInt :: "int \<Rightarrow> string" where
  "showInt n = (if n < 0 then ''-'' @ showNat (nat (- n)) else showNat (nat n))"

subsection \<open>Encoding: \<open>updateQuery\<close>\<close>

record queryPatch =
  dueFilters :: "DueFilter list option"
  statusFilters :: "StatusFilter list option"
  page :: "int option"

definition statusTokensOf :: "StatusFilter list \<Rightarrow> string list" where
  "statusTokensOf normalizedStatuses =
    (let t0 = [];
         t1 = (if active \<in> set normalizedStatuses then addAll (STATUS_QUERY_MAP active) t0 else t0);
         t2 = (if completed \<in> set normalizedStatuses then addAll (STATUS_QUERY_MAP completed) t1 else t1);
         t3 = (if triage \<in> set normalizedStatuses then addAll (STATUS_QUERY_MAP triage) t2 else t2)
     in t3)"

definition encodeDue :: "DueFilter list option \<Rightarrow> searchParams \<Rightarrow> searchParams" where
  "encodeDue df params =
    (case df of
       None \<Rightarrow> params
     | Some fs \<Rightarrow>
         if length fs = 0 then paramsDelete ''due'' params
         else paramsSet ''due'' (join '','' (map dueToken fs)) params)"

definition encodeStatus :: "StatusFilter list option \<Rightarrow> searchParams \<Rightarrow> searchParams" where
  "encodeStatus sf params =
    (case sf of
       None \<Rightarrow> params
     | Some normalizedStatuses \<Rightarrow>
         if archived \<in> set normalizedStatuses
         then paramsSet ''archived'' ''true'' (paramsDelete ''status'' params)
         else
           paramsDelete ''archived''
             (if active \<in> set normalizedStatuses \<or> completed \<in> set normalizedStatuses \<or>
                 triage \<in> set normalizedStatuses
              then (let statusTokens = statusTokensOf normalizedStatuses
                    in if length statusTokens > 0
                       then paramsSet ''status'' (join '','' statusTokens) params
                       else params)
              else paramsDelete ''status'' params))"

definition encodePage :: "int option \<Rightarrow> searchParams \<Rightarrow> searchParams" where
  "encodePage pg params =
    (case pg of
       None \<Rightarrow> params
     | Some n \<Rightarrow> if n \<le> 1 then paramsDelete ''page'' params else paramsSet ''page'' (showInt n) params)"

text \<open>
  \<open>updateQuery\<close>: the parameters handed to \<open>router.replace\<close>, and the controller with the
  mirror and the selection emptied.
\<close>

definition updateQuery :: "queryPatch \<Rightarrow> searchParams \<Rightarrow> searchParams" where
  "updateQuery next searchParams =
    encodePage (page next) (encodeStatus (statusFilters next) (encodeDue (dueFilters next) searchParams))"

definition updateQueryState :: "controller \<Rightarrow> controller" where
  "updateQueryState st = \<lparr>requirementRows = [], selectedIds = []\<rparr>"

definition toggleStatusFilter :: "StatusFilter \<Rightarrow> StatusFilter list \<Rightarrow> StatusFilter list" where
  "toggleStatusFilter v prev =
    (if v = archived
     then (if archived \<in> set prev then filter (\<lambda>item. item \<noteq> archived) prev else [archived])
     else (let next = filter (\<lambda>item. item \<noteq> archived) prev
           in if v \<in> set next then filter (\<lambda>item. item \<noteq> v) next else next @ [v]))"

section \<open>Pagination\<close>

definition PAGE_SIZE :: int where
  "PAGE_SIZE = 10"

text \<open>
  The \<open>pagination\<close> of a response: \<open>page\<close> is \<open>pageNo\<close> here (\<open>page\<close> is the field of the
  patch of \<open>updateQuery\<close>) and \<open>total\<close> is \<open>total'\<close>. The page is a Number; the limit and
  the total are integers, as the counts they are.
\<close>

record pagination =
  pageNo :: jsnumber
  limit :: int
  total' :: int

record RequirementsResponse =
  items :: "requirement list"
  pagination :: pagination

definition resolvePage :: "searchParams option \<Rightarrow> jsnumber" where
  "resolvePage searchParams =
    (let pageParam = (case searchParams of None \<Rightarrow> None | Some ps \<Rightarrow> paramsGet ''page'' ps);
         parsed = (case pageParam of
                     None \<Rightarrow> Fin 1
                   | Some p \<Rightarrow> if p = [] then Fin 1 else parseInt10 p)
     in if parsed = NaN \<or> jsLess parsed (Fin 1) then Fin 1 else parsed)"

text \<open>
  \<open>Math.ceil(a / b)\<close> for integers \<open>a\<close> and \<open>b > 0\<close> (exact for \<open>a\<close> below \<open>2^53\<close>, which
  the length of an array is).
\<close>

definition ceilDiv :: "int \<Rightarrow> int \<Rightarrow> int" where
  "ceilDiv a b = - ((- a) div b)"

definition totalItems :: "RequirementsResponse option \<Rightarrow> requirement list \<Rightarrow> int" where
  "totalItems requirements rows =
    (case requirements of None \<Rightarrow> int (length rows) | Some resp \<Rightarrow> total' (pagination resp))"

definition pageCount :: "int \<Rightarrow> int" where
  "pageCount n = max 1 (ceilDiv n PAGE_SIZE)"

definition currentPage :: "RequirementsResponse option \<Rightarrow> jsnumber \<Rightarrow> jsnumber" where
  "currentPage requirements requestedPage =
    (case requirements of None \<Rightarrow> requestedPage | Some resp \<Rightarrow> pageNo (pagination resp))"

text \<open>
  \<open>goTo\<close> of the \<open>Pagination\<close> component: the page handed to \<open>onPageChange\<close>, if any.
\<close>

definition goTo :: "int \<Rightarrow> jsnumber \<Rightarrow> jsnumber option" where
  "goTo pageCnt nextPage =
    (if jsLess nextPage (Fin 1) \<or> jsLess (Fin (of_int pageCnt)) nextPage then None
     else Some nextPage)"

section \<open>The list endpoint (\<open>mockApiFetch\<close>, \<open>GET /requirements\<close>)\<close>

text \<open>\<open>isOverdue\<close> and \<open>isDueWithin\<close> of \<open>src/lib/dates\<close>.\<close>

definition isOverdue :: "(string \<Rightarrow> int option) \<Rightarrow> int \<Rightarrow> string option \<Rightarrow> bool" where
  "isOverdue parseDate now v = isNegativeNumber (daysUntil parseDate now v)"

definition isDueWithin :: "(string \<Rightarrow> int option) \<Rightarrow> int \<Rightarrow> string option \<Rightarrow> int \<Rightarrow> bool" where
  "isDueWithin parseDate now v days =
    (case daysUntil parseDate now v of
       None \<Rightarrow> False
     | Some NaN \<Rightarrow> False
     | Some (Fin q) \<Rightarrow> 0 \<le> q \<and> q \<le> of_int days
     | Some PosInfinity \<Rightarrow> False
     | Some NegInfinity \<Rightarrow> False)"

text \<open>
  The search parameters of a request, as the callers pass them: \<open>page\<close> a Number,
  \<open>limit\<close> an integer, \<open>due\<close> a string, each optional. (\<open>status\<close> and \<open>archived\<close> are
  passed too; the endpoint does not read them.) \<open>paramValue\<close> turns a value into a
  string and \<open>Number\<close> reads it back: the same number. For a parameter that is not
  passed \<open>paramValue\<close> looks into the query of the path, and the callers pass the path
  \<open>/requirements\<close> with no query: the value is absent then, and the pagination of the
  mock stands in.
\<close>

record requestSearch =
  pageS :: "jsnumber option"
  limitS :: "int option"
  dueS :: "string option"

text \<open>
  \<open>queryParams\<close> of the component, with the requested page and the due filters of the
  query string.
\<close>

definition queryParams :: "jsnumber \<Rightarrow> DueFilter list \<Rightarrow> requestSearch" where
  "queryParams requestedPage selectedDueFilters =
    \<lparr>pageS = Some requestedPage, limitS = Some PAGE_SIZE,
     dueS = (if length selectedDueFilters > 0
             then Some (join '','' (map dueToken selectedDueFilters)) else None)\<rparr>"

text \<open>\<open>filtered.slice(start, start + limitParam)\<close> for the page the endpoint computed.\<close>

definition pageSlice :: "jsnumber \<Rightarrow> int \<Rightarrow> 'a list \<Rightarrow> 'a list" where
  "pageSlice pg limitParam filtered =
    (case pg of
       Fin q \<Rightarrow>
         let start = (q - 1) * of_int limitParam
         in drop (nat \<lfloor>start\<rfloor>) (take (nat \<lfloor>start + of_int limitParam\<rfloor>) filtered)
     | _ \<Rightarrow> [])"

text \<open>
  The branch of \<open>mockApiFetch\<close> for \<open>GET /requirements\<close>. \<open>mock\<close> is the content of
  \<open>mocks/requirements.json\<close>.
\<close>

definition mockApiFetchRequirements ::
  "(string \<Rightarrow> int option) \<Rightarrow> int \<Rightarrow> RequirementsResponse \<Rightarrow> requestSearch \<Rightarrow> RequirementsResponse" where
  "mockApiFetchRequirements parseDate now mock search =
    (let limitParam = max 1 (min 100 (case limitS search of
                                        None \<Rightarrow> limit (pagination mock)
                                      | Some l \<Rightarrow> l));
         requestedPage = MathMax (Fin 1) (case pageS search of
                                            None \<Rightarrow> pageNo (pagination mock)
                                          | Some p \<Rightarrow> p);
         dueParam = dueS search;
         filtered = filter (\<lambda>item.
             case dueParam of
               None \<Rightarrow> True
             | Some d \<Rightarrow>
                 if d = [] then True
                 else if d = ''overdue'' then isOverdue parseDate now (due_date item)
                 else if d = ''due7'' then isDueWithin parseDate now (due_date item) 7
                 else if d = ''due30'' then isDueWithin parseDate now (due_date item) 30
                 else True) (items mock);
         total = int (length filtered);
         pageCnt = max 1 (ceilDiv total limitParam);
         pg = MathMin requestedPage (Fin (of_int pageCnt))
     in \<lparr>items = pageSlice pg limitParam filtered,
         pagination = \<lparr>pageNo = pg, limit = limitParam, total' = total\<rparr>\<rparr>)"

section \<open>Bulk triage save (\<open>TriagePanel.handleSubmit\<close>)\<close>

text \<open>
  The form; \<open>status\<close> of the form is \<open>statusF\<close> here, the name \<open>status\<close> being the
  requirement's.
\<close>

record FormState =
  frequency :: "string option"
  anchorType :: "string option"
  anchorDate :: "string option"
  dueDate :: "string option"
  assignee :: "string option"
  interval :: "string option"
  statusF :: "string option"

datatype jsvalue = JString string | JNumber jsnumber

type_synonym jsobject = "(string \<times> jsvalue) list"

text \<open>The payload handed to \<open>onSubmit\<close>; its fields carry the suffix \<open>P\<close>.\<close>

record payload =
  requirement_ids :: "string list"
  frequencyP :: "string option"
  anchor_typeP :: "string option"
  anchor_valueP :: "jsobject option"
  due_dateP :: "string option"
  assigneeP :: "string option"
  statusP :: "string option"

text \<open>
  What \<open>handleSubmit\<close> does: a toast with a translation key and no call, an exception
  out of \<open>toISOString\<close> (no call either), or the call of \<open>onSubmit\<close>, which posts the payload.
\<close>

datatype submitOutcome = Rejected string | Threw | Submitted payload

text \<open>A string in a condition: absent and empty are false.\<close>

definition truthy :: "string option \<Rightarrow> bool" where
  "truthy v = (case v of None \<Rightarrow> False | Some s \<Rightarrow> s \<noteq> [])"

text \<open>\<open>obj[key] = v\<close> on the insertion-ordered properties of an object.\<close>

definition objSet :: "string \<Rightarrow> jsvalue \<Rightarrow> jsobject \<Rightarrow> jsobject" where
  "objSet key v obj =
    (if key \<in> fst ` set obj
     then map (\<lambda>p. if fst p = key then (key, v) else p) obj
     else obj @ [(key, v)])"

definition objGet :: "string \<Rightarrow> jsobject \<Rightarrow> jsvalue option" where
  "objGet key obj = map_of obj key"

definition decimalInteger :: "string \<Rightarrow> int option" where
  "decimalInteger s =
    (let sign = (if take 1 s = ''-'' then - 1 else 1);
         body = (if take 1 s = ''-'' \<or> take 1 s = ''+'' then drop 1 s else s)
     in if body \<noteq> [] \<and> list_all isDigit body then Some (sign * digitsValue body) else None)"

text \<open>
  \<open>Number(s)\<close>: white space is trimmed, the empty string is 0, a signed run of decimal
  digits is its integer (the double nearest to it, the same value below \<open>2^53\<close>); what
  \<open>Number\<close> makes of any other string (a fraction, an exponent, a hexadecimal literal,
  \<open>Infinity\<close>, or NaN) is the parameter \<open>other\<close>.
\<close>

definition toNumber :: "(string \<Rightarrow> jsnumber) \<Rightarrow> string \<Rightarrow> jsnumber" where
  "toNumber other s =
    (let t = trim s
     in if t = [] then Fin 0
        else (case decimalInteger t of Some n \<Rightarrow> Fin (of_int n) | None \<Rightarrow> other s))"

text \<open>
  The three tests of \<open>!intervalValue || Number.isNaN(intervalValue) || intervalValue <= 0\<close>
  on a number that may be \<open>undefined\<close>.
\<close>

definition numberTruthy :: "jsnumber option \<Rightarrow> bool" where
  "numberTruthy v =
    (case v of
       None \<Rightarrow> False
     | Some NaN \<Rightarrow> False
     | Some (Fin q) \<Rightarrow> q \<noteq> 0
     | Some PosInfinity \<Rightarrow> True
     | Some NegInfinity \<Rightarrow> True)"

definition NumberIsNaN :: "jsnumber option \<Rightarrow> bool" where
  "NumberIsNaN v = (v = Some NaN)"

definition leZero :: "jsnumber option \<Rightarrow> bool" where
  "leZero v =
    (case v of
       None \<Rightarrow> False
     | Some NaN \<Rightarrow> False
     | Some (Fin q) \<Rightarrow> q \<le> 0
     | Some PosInfinity \<Rightarrow> False
     | Some NegInfinity \<Rightarrow> True)"

text \<open>
  \<open>new Date(s).toISOString()\<close> where the field \<open>v\<close> is set: \<open>None\<close> is the RangeError of
  an invalid date, \<open>Some None\<close> a field that is not set.
\<close>

definition orEmpty :: "string option \<Rightarrow> string" where
  "orEmpty v = (case v of None \<Rightarrow> [] | Some s \<Rightarrow> s)"

definition isoField ::
  "(string \<Rightarrow> int option) \<Rightarrow> (int \<Rightarrow> string) \<Rightarrow> string option \<Rightarrow> string option option" where
  "isoField parseDate toISOString v =
    (if truthy v
     then (case newDate parseDate (orEmpty v) of
             None \<Rightarrow> None
           | Some t \<Rightarrow> Some (Some (toISOString t)))
     else Some None)"

definition startsWith :: "string \<Rightarrow> string \<Rightarrow> bool" where
  "startsWith s prefix = (take (length prefix) s = prefix)"

text \<open>The part of \<open>handleSubmit\<close> after the checks, inside \<open>try\<close>.\<close>

definition buildPayload ::
  "(string \<Rightarrow> int option) \<Rightarrow> (int \<Rightarrow> string) \<Rightarrow> requirement list \<Rightarrow> FormState \<Rightarrow>
   string \<Rightarrow> bool \<Rightarrow> jsnumber option \<Rightarrow> submitOutcome" where
  "buildPayload parseDate toISOString selected form freq requiresInterval intervalValue =
    (let p0 = \<lparr>requirement_ids = map id' selected, frequencyP = None, anchor_typeP = None,
               anchor_valueP = None, due_dateP = None, assigneeP = None, statusP = None\<rparr>;
         p1 = (if freq \<noteq> [] then p0\<lparr>frequencyP := Some freq\<rparr> else p0)
     in case (if truthy (anchorType form)
              then isoField parseDate toISOString (anchorDate form) else Some None) of
          None \<Rightarrow> Threw
        | Some anchorIso \<Rightarrow>
            let p2 = (if truthy (anchorType form)
                      then p1\<lparr>anchor_typeP := anchorType form,
                              anchor_valueP := map_option (\<lambda>d. [(''date'', JString d)]) anchorIso\<rparr>
                      else p1);
                p3 = (if truthy (anchor_typeP p2) \<and> anchor_valueP p2 = None
                      then p2\<lparr>anchor_valueP := Some []\<rparr> else p2);
                p4 = (case intervalValue of
                        None \<Rightarrow> p3
                      | Some n \<Rightarrow>
                          if requiresInterval \<and> numberTruthy intervalValue
                          then
                            let a0 = (case anchor_valueP p3 of None \<Rightarrow> [] | Some obj \<Rightarrow> obj);
                                a1 = objSet ''interval'' (JNumber n) a0;
                                a2 = (if freq = ''EVERY_N_DAYS'' then objSet ''days'' (JNumber n) a1
                                      else if freq = ''EVERY_N_WEEKS'' then objSet ''weeks'' (JNumber n) a1
                                      else if freq = ''EVERY_N_MONTHS'' then objSet ''months'' (JNumber n) a1
                                      else a1)
                            in p3\<lparr>anchor_valueP := Some a2\<rparr>
                          else p3)
            in (case isoField parseDate toISOString (dueDate form) of
                  None \<Rightarrow> Threw
                | Some dueIso \<Rightarrow>
                    let p5 = (if truthy (dueDate form) then p4\<lparr>due_dateP := dueIso\<rparr> else p4);
                        p6 = (if truthy (assignee form) then p5\<lparr>assigneeP := assignee form\<rparr> else p5);
                        p7 = (if truthy (statusF form) then p6\<lparr>statusP := statusF form\<rparr> else p6)
                    in Submitted p7))"

definition handleSubmit ::
  "(string \<Rightarrow> int option) \<Rightarrow> (int \<Rightarrow> string) \<Rightarrow> (string \<Rightarrow> jsnumber) \<Rightarrow>
   requirement list \<Rightarrow> FormState \<Rightarrow> submitOutcome" where
  "handleSubmit parseDate toISOString other selected form =
    (if \<not> truthy (statusF form) then Rejected ''triage.statusRequired''
     else
       let freq = orEmpty (frequency form)
       in if freq = [] then Rejected ''triage.frequencyRequired''
          else
            let needsDueDate = (freq \<notin> set [''BEFORE_EACH_USE'', ''ONE_TIME''])
            in if needsDueDate \<and> \<not> truthy (dueDate form) then Rejected ''triage.dueRequired''
               else
                 let requiresInterval = startsWith freq ''EVERY_N_'';
                     intervalValue = (if truthy (interval form)
                                      then Some (toNumber other (orEmpty (interval form)))
                                      else None)
                 in if requiresInterval \<and>
                       (\<not> numberTruthy intervalValue \<or> NumberIsNaN intervalValue \<or>
                        leZero intervalValue)
                    then Rejected ''triage.intervalRequired''
                    else buildPayload parseDate toISOString selected form freq requiresInterval
                           intervalValue)"

section \<open>Archiving\<close>

datatype event =
    ToastError string
  | ToastSuccess string
  | ApiPost string string

text \<open>
  \<open>archiveRequirement\<close>. \<open>promptAnswer\<close> is what \<open>window.prompt\<close> returned (\<open>None\<close> for
  Cancel); \<open>api path reason\<close> is the outcome of the POST with the body \<open>{reason}\<close>, the
  error message or the updated record; \<open>latest\<close> is what the revalidation after it
  returned, or the message of its failure. The result is the controller and what the
  user and the network saw, in order; \<open>ApiPost path reason\<close> is the request.
\<close>

definition archivePath :: "requirement \<Rightarrow> string" where
  "archivePath r = ''/requirements/'' @ id' r @ ''/archive''"

definition archiveRequirement ::
  "bool \<Rightarrow> string option \<Rightarrow> (string \<Rightarrow> string \<Rightarrow> string + requirement) \<Rightarrow>
   (string + requirement list option) \<Rightarrow> requirement \<Rightarrow> controller \<Rightarrow> controller \<times> event list" where
  "archiveRequirement triageFilter promptAnswer api latest r st =
    (if archive_state r = Some ''archived'' \<or> status r = Some ''ARCHIVED'' then (st, [])
     else case promptAnswer of
       None \<Rightarrow> (st, [])
     | Some reasonInput \<Rightarrow>
         let reason = trim reasonInput
         in if reason = [] then (st, [ToastError ''requirements.detail.archiveReasonRequired''])
            else (case api (archivePath r) reason of
                    Inl message \<Rightarrow> (st, [ApiPost (archivePath r) reason, ToastError message])
                  | Inr updated \<Rightarrow>
                      let st1 = \<lparr>requirementRows =
                                   map (\<lambda>row. if id' row = id' updated then updated else row)
                                     (requirementRows st),
                                 selectedIds = filter (\<lambda>i. i \<noteq> id' r) (selectedIds st)\<rparr>;
                          st2 = runEffects triageFilter st1;
                          log = [ApiPost (archivePath r) reason,
                                 ToastSuccess ''requirements.detail.archived'']
                      in (case latest of
                            Inl message \<Rightarrow> (st2, log @ [ToastError message])
                          | Inr l \<Rightarrow> (hydrate triageFilter l st2, log))))"

text \<open>
  \<open>handleDismissClick\<close> of the triage panel: \<open>onDismiss\<close> may be absent, \<open>window.confirm\<close>
  answers \<open>confirmed\<close>, \<open>window.prompt\<close> answers \<open>promptAnswer\<close>.
\<close>

datatype dismissOutcome = DismissNothing | DismissToastError string | DismissCall "requirement list" string

definition handleDismissClick ::
  "bool \<Rightarrow> bool \<Rightarrow> string option \<Rightarrow> requirement list \<Rightarrow> dismissOutcome" where
  "handleDismissClick hasOnDismiss confirmed promptAnswer selected =
    (if \<not> hasOnDismiss then DismissNothing
     else if \<not> confirmed then DismissNothing
     else case promptAnswer of
       None \<Rightarrow> DismissNothing
     | Some reasonInput \<Rightarrow>
         let archiveReason = trim reasonInput
         in if archiveReason = [] then DismissToastError ''requirements.detail.archiveReasonRequired''
            else DismissCall selected archiveReason)"

section \<open>Sample inputs\<close>

definition sampleClock :: int where
  "sampleClock = 1709164800123"

definition sampleParse :: "string \<Rightarrow> int option" where
  "sampleParse s =
    (if s = ''2024-02-29T10:00:00Z'' then Some 1709200800000
     else if s = ''2024-02-28T23:00:00Z'' then Some 1709161200000
     else None)"

definition sampleRecord :: requirement where
  "sampleRecord = \<lparr>id' = ''r1'', status = Some ''OPEN'', archive_state = Some ''pending'',
     due_date = Some ''2024-02-28T23:00:00Z''\<rparr>"

definition sampleRows :: "requirement list" where
  "sampleRows =
    [\<lparr>id' = ''a'', status = Some ''PENDING_REVIEW'', archive_state = None, due_date = None\<rparr>,
     \<lparr>id' = ''b'', status = Some ''OPEN'', archive_state = None, due_date = None\<rparr>]"

definition sampleController :: controller where
  "sampleController =
    \<lparr>requirementRows =
       [\<lparr>id' = ''a'', status = Some ''PENDING_REVIEW'', archive_state = None, due_date = None\<rparr>,
        \<lparr>id' = ''b'', status = Some ''PENDING_REVIEW'', archive_state = None, due_date = None\<rparr>,
        \<lparr>id' = ''c'', status = Some ''PENDING_REVIEW'', archive_state = None, due_date = None\<rparr>],
     selectedIds = [''a'', ''b'', ''c'']\<rparr>"

text \<open>
  The query \<open>?page=5\<close>, the query \<open>?page=3abc\<close>, and 25 records for the endpoint to
  serve.
\<close>

definition samplePageQuery :: searchParams where
  "samplePageQuery = [(''page'', ''5'')]"

definition samplePrefixQuery :: searchParams where
  "samplePrefixQuery = [(''page'', ''3abc'')]"

definition sampleMock :: RequirementsResponse where
  "sampleMock =
    \<lparr>items = replicate 25
       \<lparr>id' = ''r'', status = Some ''OPEN'', archive_state = None, due_date = None\<rparr>,
     pagination = \<lparr>pageNo = Fin 1, limit = 10, total' = 25\<rparr>\<rparr>"

definition sampleForm :: FormState where
  "sampleForm =
    \<lparr>frequency = Some ''EVERY_N_WEEKS'', anchorType = None, anchorDate = None,
     dueDate = Some ''2024-02-29T10:00:00Z'', assignee = None, interval = Some ''2'',
     statusF = Some ''OPEN''\<rparr>"
section \<open>Facts about the time functions\<close>

lemma int_div_lo: "0 < (k::int) \<Longrightarrow> x - k < k * (x div k)"
proof -
  assume k: "0 < k"
  have "x = k * (x div k) + x mod k" by simp
  moreover have "x mod k < k" using k by simp
  ultimately show ?thesis by linarith
qed

lemma int_div_hi: "0 < (k::int) \<Longrightarrow> k * (x div k) \<le> x"
proof -
  assume k: "0 < k"
  have "x = k * (x div k) + x mod k" by simp
  moreover have "0 \<le> x mod k" using k by simp
  ultimately show ?thesis by linarith
qed

lemma DayFromYear_upper: "400 * DayFromYear y \<le> 146097 * y - 287810501"
proof -
  define A where "A = (y - 1969) div 4"
  define B where "B = (y - 1901) div 100"
  define C where "C = (y - 1601) div 400"
  have a: "4 * A \<le> y - 1969" unfolding A_def by (rule int_div_hi) simp
  have b: "y - 1901 - 100 < 100 * B" unfolding B_def by (rule int_div_lo) simp
  have c: "400 * C \<le> y - 1601" unfolding C_def by (rule int_div_hi) simp
  have "DayFromYear y = 365 * y - 719050 + A - B + C"
    by (simp add: DayFromYear_def A_def B_def C_def)
  then show ?thesis using a b c by linarith
qed

lemma DayFromYear_lower: "146097 * y - 287811596 \<le> 400 * DayFromYear y"
proof -
  define A where "A = (y - 1969) div 4"
  define B where "B = (y - 1901) div 100"
  define C where "C = (y - 1601) div 400"
  have a: "y - 1969 - 4 < 4 * A" unfolding A_def by (rule int_div_lo) simp
  have b: "100 * B \<le> y - 1901" unfolding B_def by (rule int_div_hi) simp
  have c: "y - 1601 - 400 < 400 * C" unfolding C_def by (rule int_div_lo) simp
  have "DayFromYear y = 365 * y - 719050 + A - B + C"
    by (simp add: DayFromYear_def A_def B_def C_def)
  then show ?thesis using a b c by linarith
qed

lemma YearFromTime_spec:
  "DayFromYear (YearFromTime t) \<le> Day t \<and> Day t < DayFromYear (YearFromTime t + 1)"
proof -
  define d where "d = Day t"
  define q where "q = (400 * d) div 146097"
  define y0 where "y0 = 1970 + q"
  have e1: "146097 * q \<le> 400 * d"
    unfolding q_def by (rule int_div_hi) simp
  have e2: "400 * d - 146097 < 146097 * q"
    unfolding q_def by (rule int_div_lo) simp
  define L where "L = DayFromYear (q + 1969)"
  define H where "H = DayFromYear (q + 1972)"
  have lo: "L \<le> d"
    using DayFromYear_upper [of "q + 1969"] e1 unfolding L_def [symmetric] by (simp add: algebra_simps)
  have hi: "d < H"
    using DayFromYear_lower [of "q + 1972"] e2 unfolding H_def [symmetric] by (simp add: algebra_simps)
  have s1: "y0 + 1 + 1 = q + 1972" and s2: "y0 - 1 = q + 1969" and s3: "y0 - 1 + 1 = y0"
    by (simp_all add: y0_def)
  have Y: "YearFromTime t = (if DayFromYear (y0 + 1) \<le> d then y0 + 1
        else if d < DayFromYear y0 then y0 - 1 else y0)"
    by (simp add: YearFromTime_def Let_def d_def y0_def q_def)
  have lo': "DayFromYear (y0 - 1) \<le> d" using lo by (simp only: L_def s2)
  have hi': "d < DayFromYear (y0 + 1 + 1)" using hi by (simp only: H_def s1)
  consider (up) "DayFromYear (y0 + 1) \<le> d"
    | (down) "\<not> DayFromYear (y0 + 1) \<le> d" "d < DayFromYear y0"
    | (stay) "\<not> DayFromYear (y0 + 1) \<le> d" "\<not> d < DayFromYear y0"
    by blast
  then have "DayFromYear (YearFromTime t) \<le> d \<and> d < DayFromYear (YearFromTime t + 1)"
  proof cases
    case up
    then have "YearFromTime t = y0 + 1" by (simp only: Y if_True)
    then show ?thesis using up hi' by simp
  next
    case down
    then have "YearFromTime t = y0 - 1" by (simp only: Y if_False if_True)
    then show ?thesis using down lo' by simp
  next
    case stay
    then have "YearFromTime t = y0" by (simp only: Y if_False)
    then show ?thesis using stay by simp
  qed
  then show ?thesis by (simp only: d_def)
qed

lemma DayFromYear_1969: "DayFromYear 1969 = - 365"
  by (simp add: DayFromYear_def)

lemma YearFromTime_ge_1969:
  assumes "- 1 \<le> Day t"
  shows "1969 \<le> YearFromTime t"
proof (rule ccontr)
  assume "\<not> 1969 \<le> YearFromTime t"
  then have y: "YearFromTime t + 1 \<le> 1969" by simp
  define H where "H = DayFromYear (YearFromTime t + 1)"
  have "Day t < H" using YearFromTime_spec [of t] by (simp add: H_def)
  moreover have "400 * H \<le> 146097 * (YearFromTime t + 1) - 287810501"
    unfolding H_def by (rule DayFromYear_upper)
  ultimately show False using assms y by (simp add: algebra_simps)
qed

lemma MonthFromTime_range: "0 \<le> MonthFromTime t \<and> MonthFromTime t \<le> 11"
  by (simp add: MonthFromTime_def Let_def)

lemma utcMidnight_floor:
  assumes "YearFromTime t < 0 \<or> 99 < YearFromTime t"
  shows "utcMidnight t = TimeClip (Day t * msPerDay)"
proof -
  define m where "m = MonthFromTime t"
  have m: "0 \<le> m" "m \<le> 11" using MonthFromTime_range [of t] by (simp_all add: m_def)
  then have dm: "m div 12 = 0" "m mod 12 = m" by simp_all
  have "MakeDay (YearFromTime t) m (DateFromTime t) = Day t"
    by (simp add: MakeDay_def Let_def dm DateFromTime_def DayWithinYear_def InLeapYear_def m_def [symmetric])
  then show ?thesis using assms
    by (auto simp: utcMidnight_def DateUTC_def Let_def MakeDate_def m_def)
qed

lemma utcMidnight_cong: "Day t = Day t' \<Longrightarrow> utcMidnight t = utcMidnight t'"
  by (simp add: utcMidnight_def YearFromTime_def MonthFromTime_def DateFromTime_def
      DayWithinYear_def InLeapYear_def)


lemma leapDays_range: "0 \<le> leapDays y \<and> leapDays y \<le> 1"
  by (simp add: leapDays_def)

lemma monthStart_leap_diff:
  assumes "0 \<le> L" "L \<le> 1" "0 \<le> L'" "L' \<le> 1"
  shows "\<bar>monthStart m L' - monthStart m L\<bar> \<le> 1"
proof -
  have "\<bar>L' - L\<bar> \<le> 1" using assms by linarith
  then show ?thesis by (simp add: monthStart_def)
qed

lemma DayWithinYear_range: "0 \<le> DayWithinYear t \<and> DayWithinYear t \<le> 367"
proof -
  define y where "y = YearFromTime t"
  define a where "a = DayFromYear y"
  define b where "b = DayFromYear (y + 1)"
  have 1: "a \<le> Day t" "Day t < b"
    using YearFromTime_spec [of t] by (simp_all add: a_def b_def y_def)
  have 2: "400 * b \<le> 146097 * (y + 1) - 287810501"
    unfolding b_def by (rule DayFromYear_upper)
  have 3: "146097 * y - 287811596 \<le> 400 * a"
    unfolding a_def by (rule DayFromYear_lower)
  have "b - a \<le> 368" using 2 3 by (simp add: algebra_simps)
  then show ?thesis using 1 by (simp add: DayWithinYear_def y_def [symmetric] a_def [symmetric])
qed

lemma Day_range:
  assumes "\<bar>t\<bar> \<le> maxTime"
  shows "- 100000000 \<le> Day t \<and> Day t \<le> 100000000"
proof -
  have "(- 100000000 * msPerDay) div msPerDay \<le> t div msPerDay"
    using assms by (intro zdiv_mono1) (simp_all add: maxTime_def msPerDay_def)
  moreover have "t div msPerDay \<le> (100000000 * msPerDay) div msPerDay"
    using assms by (intro zdiv_mono1) (simp_all add: maxTime_def msPerDay_def)
  ultimately show ?thesis by (simp add: Day_def msPerDay_def)
qed

lemma utcMidnight_valid:
  assumes "\<bar>t\<bar> \<le> maxTime"
  shows "\<exists>m. utcMidnight t = Some m"
proof (cases "YearFromTime t < 0 \<or> 99 < YearFromTime t")
  case True
  have "\<bar>Day t * msPerDay\<bar> \<le> maxTime"
    using Day_range [OF assms] unfolding msPerDay_def maxTime_def by linarith
  then show ?thesis by (simp add: utcMidnight_floor [OF True] TimeClip_def)
next
  case False
  define y where "y = YearFromTime t"
  define m where "m = MonthFromTime t"
  define L where "L = InLeapYear t"
  define L' where "L' = leapDays (1900 + y)"
  define w where "w = DayWithinYear t"
  define a where "a = DayFromYear (1900 + y)"
  define k where "k = monthStart m L' - monthStart m L"
  have y: "0 \<le> y" "y \<le> 99" using False by (simp_all add: y_def)
  have m: "0 \<le> m" "m \<le> 11" using MonthFromTime_range [of t] by (simp_all add: m_def)
  then have dm: "m div 12 = 0" "m mod 12 = m" by simp_all
  have k: "\<bar>k\<bar> \<le> 1"
    unfolding k_def L_def L'_def InLeapYear_def
    using leapDays_range by (intro monthStart_leap_diff) simp_all
  have w: "0 \<le> w" "w \<le> 367" using DayWithinYear_range [of t] by (simp_all add: w_def)
  have a1: "400 * a \<le> 146097 * (1900 + y) - 287810501"
    unfolding a_def by (rule DayFromYear_upper)
  have a2: "146097 * (1900 + y) - 287811596 \<le> 400 * a"
    unfolding a_def by (rule DayFromYear_lower)
  have a: "- 40000 \<le> a" "a \<le> 40000" using a1 a2 y by (simp_all add: algebra_simps)
  have "MakeDay (1900 + y) m (DateFromTime t) = a + w + k"
    by (simp add: MakeDay_def Let_def dm DateFromTime_def a_def w_def k_def L_def L'_def
        m_def [symmetric])
  moreover have "\<bar>(a + w + k) * msPerDay\<bar> \<le> maxTime"
  proof -
    define s where "s = a + w + k"
    have "- 50000 \<le> s" "s \<le> 50000" using a w k unfolding s_def by linarith+
    then have "\<bar>s * msPerDay\<bar> \<le> maxTime"
      unfolding msPerDay_def maxTime_def by linarith
    then show ?thesis by (simp only: s_def)
  qed
  ultimately show ?thesis using y
    by (simp add: utcMidnight_def DateUTC_def Let_def MakeDate_def TimeClip_def
        y_def [symmetric] m_def [symmetric])
qed

lemma newDate_valid: "newDate parseDate s = Some t \<Longrightarrow> \<bar>t\<bar> \<le> maxTime"
  by (auto simp: newDate_def TimeClip_def split: option.splits if_splits)

lemma roundDiv_days: "roundDiv (k * msPerDay) msPerDay = k"
proof -
  have "(2 * k + 1) div 2 = k" by simp
  moreover have "2 * (k * 86400000) + 86400000 = 86400000 * (2 * k + 1)"
    by (simp add: algebra_simps)
  moreover have "(86400000 * (2 * k + 1)) div (86400000 * 2) = (2 * k + 1) div 2"
    by (rule div_mult_mult1) simp
  ultimately show ?thesis by (simp add: roundDiv_def msPerDay_def)
qed

lemma daysUntil_same_day:
  assumes "s \<noteq> []" "newDate parseDate s = Some due" "\<bar>now\<bar> \<le> maxTime"
    and "Day due = Day now"
  shows "daysUntil parseDate now (Some s) = Some (Fin 0)"
proof -
  obtain m where m: "utcMidnight now = Some m"
    using utcMidnight_valid [OF assms(3)] by blast
  have "utcMidnight due = Some m"
    using utcMidnight_cong [OF assms(4)] m by simp
  then show ?thesis using assms(1,2) m
    by (simp add: daysUntil_def roundDiv_def msPerDay_def)
qed

lemma daysUntil_floor:
  assumes "s \<noteq> []" "newDate parseDate s = Some due" "\<bar>now\<bar> \<le> maxTime"
    and "YearFromTime due < 0 \<or> 99 < YearFromTime due"
    and "YearFromTime now < 0 \<or> 99 < YearFromTime now"
  shows "daysUntil parseDate now (Some s) = Some (Fin (of_int (Day due - Day now)))"
proof -
  have v: "\<bar>due\<bar> \<le> maxTime" using assms(2) by (rule newDate_valid)
  obtain a where a: "utcMidnight due = Some a"
    using utcMidnight_valid [OF v] by blast
  obtain b where b: "utcMidnight now = Some b"
    using utcMidnight_valid [OF assms(3)] by blast
  have a': "a = Day due * msPerDay"
    using a utcMidnight_floor [OF assms(4)] by (simp add: TimeClip_def split: if_splits)
  have b': "b = Day now * msPerDay"
    using b utcMidnight_floor [OF assms(5)] by (simp add: TimeClip_def split: if_splits)
  have "a - b = (Day due - Day now) * msPerDay"
    by (simp add: a' b' algebra_simps)
  then have "roundDiv (a - b) msPerDay = Day due - Day now"
    by (simp only: roundDiv_days)
  then show ?thesis using assms(1,2) a b
    by (simp add: daysUntil_def)
qed

lemma daysUntil_day_before:
  assumes "s \<noteq> []" "newDate parseDate s = Some due" "\<bar>now\<bar> \<le> maxTime"
    and "0 \<le> now" "Day due = Day now - 1"
  shows "daysUntil parseDate now (Some s) = Some (Fin (- 1))"
proof -
  have n: "0 \<le> Day now" using assms(4) by (simp add: Day_def msPerDay_def)
  then have "1969 \<le> YearFromTime now" by (intro YearFromTime_ge_1969) simp
  moreover have "1969 \<le> YearFromTime due"
    using n assms(5) by (intro YearFromTime_ge_1969) simp
  ultimately have "daysUntil parseDate now (Some s) = Some (Fin (of_int (Day due - Day now)))"
    using assms(1,2,3) by (intro daysUntil_floor) simp_all
  then show ?thesis using assms(5) by simp
qed

lemma daysUntil_day_only:
  assumes "s \<noteq> []" "newDate parseDate s = Some due"
    and "s' \<noteq> []" "newDate parseDate s' = Some due'"
    and "Day due' = Day due" "Day now' = Day now"
  shows "daysUntil parseDate now' (Some s') = daysUntil parseDate now (Some s)"
  using assms utcMidnight_cong [OF assms(5)] utcMidnight_cong [OF assms(6)]
  by (simp add: daysUntil_def)

lemma deriveUiStatus_not_negative:
  "\<not> isNegativeNumber (daysUntil parseDate now (due_date r)) \<Longrightarrow>
   deriveUiStatus parseDate now r \<noteq> OVERDUE"
  by (simp add: deriveUiStatus_def Let_def)

lemma deriveUiStatus_negative:
  assumes "isNegativeNumber (daysUntil parseDate now (due_date r))"
    and "archive_state r \<noteq> Some ''archived''" "archive_state r \<noteq> Some ''deleted''"
    and "status r \<noteq> Some ''ARCHIVED''"
  shows "deriveUiStatus parseDate now r = OVERDUE"
  using assms by (simp add: deriveUiStatus_def Let_def)

text \<open>
  Where the rule of \<open>Date.UTC\<close> for the years 0 to 99 applies, the midnight computed is
  not that of the day: the last millisecond of the year 99 is sent to 31 December 1999.
  No time value at or after the epoch is affected.
\<close>

lemma utcMidnight_two_digit_year:
  "YearFromTime (- 59011459200001) = 99 \<and> utcMidnight (- 59011459200001) = Some 946598400000"
  by (simp add: utcMidnight_def DateUTC_def MakeDay_def MakeDate_def TimeClip_def YearFromTime_def
      MonthFromTime_def DateFromTime_def DayWithinYear_def InLeapYear_def leapDays_def
      DaysInYear_def DayFromYear_def Day_def monthStart_def msPerDay_def maxTime_def Let_def)

section \<open>Facts about the selection effects and the query parameters\<close>

lemma purgeSelection_set:
  "set (purgeSelection rows prev) =
    {i \<in> set prev. \<exists>item \<in> set rows. id' item = i \<and> status item = Some ''PENDING_REVIEW''}"
  by (auto simp: purgeSelection_def list_ex_iff)

text \<open>
  When the selection column is gone there is no row to keep an id for, so the second
  effect changes nothing the purge has not done.
\<close>

lemma selectionEffects_purge: "selectionEffects t rows prev = purgeSelection rows prev"
proof (cases "showSelectionColumn t rows")
  case True
  then show ?thesis by (simp add: selectionEffects_def)
next
  case False
  then have "\<forall>item \<in> set rows. status item \<noteq> Some ''PENDING_REVIEW''"
    by (simp add: showSelectionColumn_def list_ex_iff)
  then have "purgeSelection rows prev = []"
    by (auto simp: purgeSelection_def list_ex_iff filter_empty_conv)
  then show ?thesis by (simp add: selectionEffects_def)
qed

lemma setRequirementRows_rows: "requirementRows (setRequirementRows t rows st) = rows"
  by (simp add: setRequirementRows_def runEffects_def)

lemma setRequirementRows_selected:
  "selectedIds (setRequirementRows t rows st) = purgeSelection rows (selectedIds st)"
  by (simp add: setRequirementRows_def runEffects_def selectionEffects_purge)

text \<open>
  A toggle keeps the selection inside the selectable rows when the record toggled is a
  row of the mirror, as the records of the table are.
\<close>

lemma toggleSelection_selectable:
  assumes "\<forall>i \<in> set (selectedIds st).
      \<exists>item \<in> set (requirementRows st). id' item = i \<and> status item = Some ''PENDING_REVIEW''"
    and "r \<in> set (requirementRows st)"
  shows "\<forall>i \<in> set (selectedIds (toggleSelection r checked st)).
      \<exists>item \<in> set (requirementRows (toggleSelection r checked st)).
        id' item = i \<and> status item = Some ''PENDING_REVIEW''"
  using assms by (auto simp: toggleSelection_def)

lemma updateQueryState_empty:
  "requirementRows (updateQueryState st) = [] \<and> selectedIds (updateQueryState st) = []"
  by (simp add: updateQueryState_def)

lemma paramsGet_delete: "paramsGet k (paramsDelete k' ps) = (if k = k' then None else paramsGet k ps)"
  by (induction ps) (auto simp: paramsGet_def paramsDelete_def)

lemma paramsGet_set: "paramsGet k (paramsSet k' v ps) = (if k = k' then Some v else paramsGet k ps)"
proof (induction ps)
  case Nil
  then show ?case by (simp add: paramsGet_def)
next
  case (Cons p ps)
  have "map_of (paramsDelete k' ps) k = (if k = k' then None else map_of ps k)"
    using paramsGet_delete [of k k' ps] by (simp add: paramsGet_def)
  with Cons show ?case by (cases p) (auto simp: paramsGet_def)
qed

lemma paramsGet_encodePage:
  "k \<noteq> ''page'' \<Longrightarrow> paramsGet k (encodePage pg ps) = paramsGet k ps"
  by (auto simp: encodePage_def paramsGet_delete paramsGet_set split: option.splits)

lemma paramsGet_encodeStatus:
  "k \<noteq> ''status'' \<Longrightarrow> k \<noteq> ''archived'' \<Longrightarrow> paramsGet k (encodeStatus sf ps) = paramsGet k ps"
  by (auto simp: encodeStatus_def Let_def paramsGet_delete paramsGet_set split: option.splits)

section \<open>Facts about the page and the list endpoint\<close>

lemma toDouble_not_NaN: "toDouble n \<noteq> NaN"
  by (simp add: toDouble_def Let_def)

lemma toDouble_rounds_to_even: "toDouble 9007199254740993 = Fin 9007199254740992"
  by (simp add: toDouble_def Let_def bitLength.simps)

lemma resolvePage_lower:
  "resolvePage sp \<noteq> NaN \<and> \<not> jsLess (resolvePage sp) (Fin 1)"
  by (simp add: resolvePage_def Let_def)

lemma resolvePage_absent:
  "resolvePage None = Fin 1"
  "paramsGet ''page'' ps = None \<Longrightarrow> resolvePage (Some ps) = Fin 1"
  "paramsGet ''page'' ps = Some [] \<Longrightarrow> resolvePage (Some ps) = Fin 1"
  by (simp_all add: resolvePage_def)

lemma resolvePage_no_digits:
  "paramsGet ''page'' ps = Some p \<Longrightarrow> parseInt10 p = NaN \<Longrightarrow> resolvePage (Some ps) = Fin 1"
  by (simp add: resolvePage_def)

lemma resolvePage_below_1:
  "paramsGet ''page'' ps = Some p \<Longrightarrow> jsLess (parseInt10 p) (Fin 1) \<Longrightarrow>
   resolvePage (Some ps) = Fin 1"
  by (simp add: resolvePage_def)

lemma MathMin_upper:
  "a \<noteq> NaN \<Longrightarrow> \<not> jsLess (Fin q) (MathMin a (Fin q))"
  by (cases a) (simp_all add: MathMin_def)

lemma MathMin_beyond:
  "jsLess (Fin q) a \<Longrightarrow> MathMin a (Fin q) = Fin q"
  by (cases a) (simp_all add: MathMin_def)

lemma MathMax_lower:
  "a \<noteq> NaN \<Longrightarrow> MathMax (Fin 1) a \<noteq> NaN \<and> \<not> jsLess (MathMax (Fin 1) a) (Fin 1)"
  by (cases a) (simp_all add: MathMax_def)

lemma MathMin_lower:
  "a \<noteq> NaN \<Longrightarrow> \<not> jsLess a (Fin 1) \<Longrightarrow> 1 \<le> q \<Longrightarrow>
   \<not> jsLess (MathMin a (Fin q)) (Fin 1)"
  by (cases a) (simp_all add: MathMin_def)

lemma pageCount_ge_1: "1 \<le> pageCount n"
  by (simp add: pageCount_def)

text \<open>
  The endpoint, asked with the \<open>queryParams\<close> of the component, answers with the limit
  \<open>PAGE_SIZE\<close> and with the page \<open>min(max(1, requested), pageCount)\<close>, where the page
  count is the one the component computes from the total of the answer.
\<close>

lemma endpoint_pagination:
  "limit (pagination (mockApiFetchRequirements parseDate now mock (queryParams requested dues)))
     = PAGE_SIZE \<and>
   pageNo (pagination (mockApiFetchRequirements parseDate now mock (queryParams requested dues)))
     = MathMin (MathMax (Fin 1) requested)
         (Fin (of_int (pageCount (total' (pagination
            (mockApiFetchRequirements parseDate now mock (queryParams requested dues)))))))"
  by (simp only: mockApiFetchRequirements_def Let_def RequirementsResponse.simps
         pagination.simps queryParams_def requestSearch.simps option.case pageCount_def)
     (simp add: PAGE_SIZE_def)

text \<open>
  So the page of an answer of the endpoint lies between 1 and the page count of that
  answer: with such an answer loaded, the page shown is within the range.
\<close>

lemma endpoint_page_in_range:
  assumes "resp = mockApiFetchRequirements parseDate now mock (queryParams requested dues)"
    and "requested \<noteq> NaN"
  shows "\<not> jsLess (currentPage (Some resp) requested) (Fin 1)"
    and "\<not> jsLess (Fin (of_int (pageCount (totalItems (Some resp) rows))))
           (currentPage (Some resp) requested)"
proof -
  have 2: "pageNo (pagination resp) =
         MathMin (MathMax (Fin 1) requested) (Fin (of_int (pageCount (total' (pagination resp)))))"
    unfolding assms(1) using endpoint_pagination by blast
  have m: "MathMax (Fin 1) requested \<noteq> NaN" "\<not> jsLess (MathMax (Fin 1) requested) (Fin 1)"
    using MathMax_lower [OF assms(2)] by simp_all
  have "(1 :: rat) \<le> of_int (pageCount (total' (pagination resp)))"
    using pageCount_ge_1 [of "total' (pagination resp)"] by simp
  with m have "\<not> jsLess (MathMin (MathMax (Fin 1) requested)
      (Fin (of_int (pageCount (total' (pagination resp)))))) (Fin 1)"
    by (rule MathMin_lower)
  then show "\<not> jsLess (currentPage (Some resp) requested) (Fin 1)"
    using 2 by (simp add: currentPage_def)
  have "\<not> jsLess (Fin (of_int (pageCount (total' (pagination resp)))))
     (MathMin (MathMax (Fin 1) requested) (Fin (of_int (pageCount (total' (pagination resp))))))"
    using m(1) by (rule MathMin_upper)
  then show "\<not> jsLess (Fin (of_int (pageCount (totalItems (Some resp) rows))))
      (currentPage (Some resp) requested)"
    using 2 by (simp add: currentPage_def totalItems_def)
qed

text \<open>
  The scenario of 25 records: the endpoint answers a request for page 5 with page 3,
  the last one, and its five records.
\<close>

lemma endpoint_last_page_of_25:
  "pagination (mockApiFetchRequirements sampleParse sampleClock sampleMock
      (queryParams (Fin 5) []))
     = \<lparr>pageNo = Fin 3, limit = 10, total' = 25\<rparr> \<and>
   length (items (mockApiFetchRequirements sampleParse sampleClock sampleMock
      (queryParams (Fin 5) []))) = 5"
  by (simp add: mockApiFetchRequirements_def sampleMock_def queryParams_def Let_def pageSlice_def
      PAGE_SIZE_def MathMax_def MathMin_def ceilDiv_def)

section \<open>Facts about \<open>split\<close> and \<open>join\<close>\<close>

lemma splitOn_append:
  "sep \<notin> set x \<Longrightarrow> splitOn sep (x @ sep # rest) = x # splitOn sep rest"
  by (induction x) auto

lemma splitOn_no_separator: "sep \<notin> set x \<Longrightarrow> splitOn sep x = [x]"
  by (induction x) auto

lemma splitOn_join:
  assumes "xs \<noteq> []" "\<forall>x \<in> set xs. sep \<notin> set x"
  shows "splitOn sep (join [sep] xs) = xs"
  using assms
proof (induction xs)
  case Nil
  then show ?case by simp
next
  case (Cons x xs)
  show ?case
  proof (cases xs)
    case Nil
    then show ?thesis using Cons.prems by (simp add: splitOn_no_separator)
  next
    case (Cons y ys)
    then have "splitOn sep (join [sep] xs) = xs" using Cons.IH Cons.prems by simp
    then show ?thesis using Cons Cons.prems by (simp add: splitOn_append)
  qed
qed

lemma join_nonempty: "x \<noteq> [] \<Longrightarrow> join sep (x # xs) \<noteq> []"
  by (cases xs) simp_all

lemma dueToken_no_comma: "CHR '','' \<notin> set (dueToken d)"
  by (cases d) simp_all

lemma dueToken_nonempty: "dueToken d \<noteq> []"
  by (cases d) simp_all

lemma trim_dueToken: "trim (dueToken d) = dueToken d"
  by (cases d) (simp_all add: trim_def trimStart_def trimEnd_def wsLen_def whiteSpace_def)

lemma dueToken_inj: "(dueToken a = dueToken b) = (a = b)"
  by (cases a; cases b) simp_all

lemma dueToken_mem: "(dueToken d \<in> dueToken ` set f) = (d \<in> set f)"
  by (auto simp: dueToken_inj)

section \<open>Facts about object properties and numbers\<close>

lemma map_of_replace_other:
  "k \<noteq> k' \<Longrightarrow> map_of (map (\<lambda>p. if fst p = k' then (k', v) else p) obj) k = map_of obj k"
  by (induction obj) auto

lemma map_of_replace_same:
  "k' \<in> fst ` set obj \<Longrightarrow> map_of (map (\<lambda>p. if fst p = k' then (k', v) else p) obj) k' = Some v"
  by (induction obj) auto

lemma objGet_objSet: "objGet k (objSet k' v obj) = (if k = k' then Some v else objGet k obj)"
proof (cases "k' \<in> fst ` set obj")
  case True
  then show ?thesis
    by (simp add: objGet_def objSet_def map_of_replace_other map_of_replace_same)
next
  case False
  then have "map_of obj k' = None" by (simp add: map_of_eq_None_iff)
  then show ?thesis using False
    by (auto simp: objGet_def objSet_def map_add_def split: option.splits)
qed

lemma toNumber_two: "toNumber other ''2'' = Fin 2"
  by (simp add: toNumber_def trim_def trimStart_def trimEnd_def wsLen_def whiteSpace_def
      decimalInteger_def isDigit_def digitsValue_def)

lemma ceilDiv_ceiling: "ceilDiv a 10 = \<lceil>of_int a / (10 :: rat)\<rceil>"
proof -
  have "\<lceil>of_int a / (of_int 10 :: rat)\<rceil> = - (- a div 10)"
    by (rule ceiling_divide_eq_div)
  then show ?thesis by (simp add: ceilDiv_def)
qed

section \<open>Status derivation\<close>

text \<open>
  C1. \<open>deriveUiStatus\<close> returns one of the six presentation statuses for every record,
  and the result is \<open>ARCHIVED\<close> whenever the archive state is "archived" or "deleted" or
  the raw status is \<open>ARCHIVED\<close>, whatever the other fields, the date reading and the
  clock are.
\<close>

theorem deriveUiStatus_archive_precedence:
  "deriveUiStatus parseDate now r \<in> {OPEN, NEEDS_REVIEW, NEEDS_TRIAGE, COMPLETED, ARCHIVED, OVERDUE} \<and>
   (archive_state r = Some ''archived'' \<or> archive_state r = Some ''deleted'' \<or>
      status r = Some ''ARCHIVED'' \<longrightarrow>
    deriveUiStatus parseDate now r = ARCHIVED)"
proof -
  have "deriveUiStatus parseDate now r \<in> {OPEN, NEEDS_REVIEW, NEEDS_TRIAGE, COMPLETED, ARCHIVED, OVERDUE}"
    by (cases "deriveUiStatus parseDate now r") simp_all
  then show ?thesis by (simp add: deriveUiStatus_def)
qed

theorem deriveUiStatus_archive_precedence_witness:
  "archive_state (sampleRecord\<lparr>archive_state := Some ''deleted''\<rparr>) = Some ''deleted'' \<and>
   deriveUiStatus sampleParse sampleClock (sampleRecord\<lparr>archive_state := Some ''deleted''\<rparr>) = ARCHIVED \<and>
   status (sampleRecord\<lparr>status := Some ''ARCHIVED''\<rparr>) = Some ''ARCHIVED'' \<and>
   deriveUiStatus sampleParse sampleClock (sampleRecord\<lparr>status := Some ''ARCHIVED''\<rparr>) = ARCHIVED"
  using deriveUiStatus_archive_precedence
      [of sampleParse sampleClock "sampleRecord\<lparr>archive_state := Some ''deleted''\<rparr>"]
    deriveUiStatus_archive_precedence
      [of sampleParse sampleClock "sampleRecord\<lparr>status := Some ''ARCHIVED''\<rparr>"]
  by (simp add: sampleRecord_def)

text \<open>
  C10. A record whose archive state is neither "archived" nor "deleted" (absent,
  "active", "pending", "restored", anything else) and whose raw status is not \<open>ARCHIVED\<close>
  is never presented as \<open>ARCHIVED\<close>: its status is the one derived from the raw status
  and the due date alone, the same as with no archive state at all.
\<close>

theorem deriveUiStatus_intermediate_archive_states:
  assumes "archive_state r \<noteq> Some ''archived''" "archive_state r \<noteq> Some ''deleted''"
    and "status r \<noteq> Some ''ARCHIVED''"
  shows "deriveUiStatus parseDate now r \<noteq> ARCHIVED \<and>
         deriveUiStatus parseDate now r = deriveUiStatus parseDate now (r\<lparr>archive_state := None\<rparr>)"
  using assms by (simp add: deriveUiStatus_def Let_def)

theorem deriveUiStatus_intermediate_archive_states_witness:
  "archive_state sampleRecord = Some ''pending'' \<and>
   deriveUiStatus sampleParse sampleClock sampleRecord \<noteq> ARCHIVED \<and>
   deriveUiStatus sampleParse sampleClock sampleRecord =
     deriveUiStatus sampleParse sampleClock (sampleRecord\<lparr>archive_state := None\<rparr>) \<and>
   deriveUiStatus sampleParse sampleClock (sampleRecord\<lparr>archive_state := Some ''restored''\<rparr>) \<noteq> ARCHIVED"
proof -
  have a: "archive_state sampleRecord \<noteq> Some ''archived''" "archive_state sampleRecord \<noteq> Some ''deleted''"
    "status sampleRecord \<noteq> Some ''ARCHIVED''"
    by (simp_all add: sampleRecord_def)
  have b: "archive_state (sampleRecord\<lparr>archive_state := Some ''restored''\<rparr>) \<noteq> Some ''archived''"
    "archive_state (sampleRecord\<lparr>archive_state := Some ''restored''\<rparr>) \<noteq> Some ''deleted''"
    "status (sampleRecord\<lparr>archive_state := Some ''restored''\<rparr>) \<noteq> Some ''ARCHIVED''"
    by (simp_all add: sampleRecord_def)
  show ?thesis
    using deriveUiStatus_intermediate_archive_states [OF a, of sampleParse sampleClock]
      deriveUiStatus_intermediate_archive_states [OF b, of sampleParse sampleClock]
    by (auto simp add: sampleRecord_def)
qed

section \<open>The overdue check\<close>

text \<open>
  C2. Let the due date be a non-empty string that reads as the valid time value \<open>due\<close>,
  and the clock read a valid time value \<open>now\<close>. If \<open>due\<close> lies on the UTC calendar day of
  \<open>now\<close>, \<open>daysUntil\<close> returns 0 and the record is not \<open>OVERDUE\<close>. If the clock reads 1970
  or later and \<open>due\<close> lies on the calendar day before, \<open>daysUntil\<close> returns -1 and every
  record that is not archived is \<open>OVERDUE\<close>, whatever its raw status. An absent or empty
  due date gives \<open>null\<close> and is never \<open>OVERDUE\<close>. The result depends on the calendar days
  of the two time values only, not on the time of day.
\<close>

theorem daysUntil_calendar_day:
  assumes "s \<noteq> []" "newDate parseDate s = Some due" "\<bar>now\<bar> \<le> maxTime"
  shows
    "(Day due = Day now \<longrightarrow>
        daysUntil parseDate now (Some s) = Some (Fin 0) \<and>
        deriveUiStatus parseDate now (r\<lparr>due_date := Some s\<rparr>) \<noteq> OVERDUE) \<and>
     (0 \<le> now \<and> Day due = Day now - 1 \<longrightarrow>
        daysUntil parseDate now (Some s) = Some (Fin (- 1)) \<and>
        (archive_state r \<noteq> Some ''archived'' \<and> archive_state r \<noteq> Some ''deleted'' \<and>
         status r \<noteq> Some ''ARCHIVED'' \<longrightarrow>
           deriveUiStatus parseDate now (r\<lparr>due_date := Some s\<rparr>) = OVERDUE)) \<and>
     daysUntil parseDate now None = None \<and>
     daysUntil parseDate now (Some []) = None \<and>
     deriveUiStatus parseDate now (r\<lparr>due_date := None\<rparr>) \<noteq> OVERDUE \<and>
     (\<forall>s' due' now'. s' \<noteq> [] \<and> newDate parseDate s' = Some due' \<and>
        Day due' = Day due \<and> Day now' = Day now \<longrightarrow>
        daysUntil parseDate now' (Some s') = daysUntil parseDate now (Some s))"
proof (intro conjI impI allI)
  assume d: "Day due = Day now"
  show z: "daysUntil parseDate now (Some s) = Some (Fin 0)"
    using assms d by (rule daysUntil_same_day)
  show "deriveUiStatus parseDate now (r\<lparr>due_date := Some s\<rparr>) \<noteq> OVERDUE"
    by (rule deriveUiStatus_not_negative) (simp add: z isNegativeNumber_def)
next
  assume d: "0 \<le> now \<and> Day due = Day now - 1"
  show z: "daysUntil parseDate now (Some s) = Some (Fin (- 1))"
    using assms conjunct1 [OF d] conjunct2 [OF d] by (rule daysUntil_day_before)
  assume "archive_state r \<noteq> Some ''archived'' \<and> archive_state r \<noteq> Some ''deleted'' \<and>
         status r \<noteq> Some ''ARCHIVED''"
  then show "deriveUiStatus parseDate now (r\<lparr>due_date := Some s\<rparr>) = OVERDUE"
    by (intro deriveUiStatus_negative) (simp_all add: z isNegativeNumber_def)
next
  show "daysUntil parseDate now None = None" by (simp add: daysUntil_def)
  show "daysUntil parseDate now (Some []) = None" by (simp add: daysUntil_def)
  show "deriveUiStatus parseDate now (r\<lparr>due_date := None\<rparr>) \<noteq> OVERDUE"
    by (rule deriveUiStatus_not_negative) (simp add: daysUntil_def isNegativeNumber_def)
next
  fix s' due' now'
  assume h: "s' \<noteq> [] \<and> newDate parseDate s' = Some due' \<and> Day due' = Day due \<and> Day now' = Day now"
  then have h1: "s' \<noteq> []" and h2: "newDate parseDate s' = Some due'"
    and h3: "Day due' = Day due" and h4: "Day now' = Day now"
    by simp_all
  show "daysUntil parseDate now' (Some s') = daysUntil parseDate now (Some s)"
    using assms(1,2) h1 h2 h3 h4 by (rule daysUntil_day_only)
qed

theorem daysUntil_calendar_day_witness:
  "newDate sampleParse ''2024-02-28T23:00:00Z'' = Some 1709161200000 \<and>
   0 \<le> sampleClock \<and> \<bar>sampleClock\<bar> \<le> maxTime \<and>
   Day 1709161200000 = Day sampleClock - 1 \<and>
   daysUntil sampleParse sampleClock (Some ''2024-02-28T23:00:00Z'') = Some (Fin (- 1)) \<and>
   deriveUiStatus sampleParse sampleClock sampleRecord = OVERDUE \<and>
   newDate sampleParse ''2024-02-29T10:00:00Z'' = Some 1709200800000 \<and>
   Day 1709200800000 = Day sampleClock \<and>
   daysUntil sampleParse sampleClock (Some ''2024-02-29T10:00:00Z'') = Some (Fin 0) \<and>
   deriveUiStatus sampleParse sampleClock (sampleRecord\<lparr>due_date := Some ''2024-02-29T10:00:00Z''\<rparr>)
     \<noteq> OVERDUE"
proof -
  have n: "\<bar>sampleClock\<bar> \<le> maxTime" "0 \<le> sampleClock"
    by (simp_all add: sampleClock_def maxTime_def)
  have y: "''2024-02-28T23:00:00Z'' \<noteq> []" "newDate sampleParse ''2024-02-28T23:00:00Z'' = Some 1709161200000"
    by (simp_all add: newDate_def sampleParse_def TimeClip_def maxTime_def)
  have t: "''2024-02-29T10:00:00Z'' \<noteq> []" "newDate sampleParse ''2024-02-29T10:00:00Z'' = Some 1709200800000"
    by (simp_all add: newDate_def sampleParse_def TimeClip_def maxTime_def)
  have dy: "Day 1709161200000 = Day sampleClock - 1" "Day 1709200800000 = Day sampleClock"
    by (simp_all add: Day_def msPerDay_def sampleClock_def)
  have r: "sampleRecord\<lparr>due_date := Some ''2024-02-28T23:00:00Z''\<rparr> = sampleRecord"
    "archive_state sampleRecord \<noteq> Some ''archived''" "archive_state sampleRecord \<noteq> Some ''deleted''"
    "status sampleRecord \<noteq> Some ''ARCHIVED''"
    by (simp_all add: sampleRecord_def)
  show ?thesis
    using daysUntil_calendar_day [OF y n(1), of sampleRecord]
      daysUntil_calendar_day [OF t n(1), of sampleRecord] n y t dy r
    by simp
qed

text \<open>
  C9. A due-date string that does not read as a valid date makes \<open>daysUntil\<close> return
  \<open>null\<close>, as an absent due date does (the model has no exception to throw on the way):
  the presentation status is the one of the record without a due date, never \<open>OVERDUE\<close>,
  and \<open>formatDate\<close> renders the em dash of a missing date.
\<close>

theorem unreadable_due_date_is_missing:
  assumes "newDate parseDate s = None"
  shows "daysUntil parseDate now (Some s) = None \<and>
         daysUntil parseDate now (Some s) = daysUntil parseDate now None \<and>
         deriveUiStatus parseDate now (r\<lparr>due_date := Some s\<rparr>) =
           deriveUiStatus parseDate now (r\<lparr>due_date := None\<rparr>) \<and>
         deriveUiStatus parseDate now (r\<lparr>due_date := Some s\<rparr>) \<noteq> OVERDUE \<and>
         formatDate parseDate fmt (Some s) locale = emDash \<and>
         formatDate parseDate fmt (Some s) locale = formatDate parseDate fmt None locale"
proof -
  have d: "daysUntil parseDate now (Some s) = None"
    using assms by (simp add: daysUntil_def)
  have n: "daysUntil parseDate now None = None"
    by (simp add: daysUntil_def)
  have "deriveUiStatus parseDate now (r\<lparr>due_date := Some s\<rparr>) \<noteq> OVERDUE"
    by (rule deriveUiStatus_not_negative) (simp add: d isNegativeNumber_def)
  moreover have "deriveUiStatus parseDate now (r\<lparr>due_date := Some s\<rparr>) =
      deriveUiStatus parseDate now (r\<lparr>due_date := None\<rparr>)"
    by (simp add: deriveUiStatus_def Let_def d n)
  moreover have "formatDate parseDate fmt (Some s) locale = emDash"
    using assms by (simp add: formatDate_def)
  moreover have "formatDate parseDate fmt None locale = emDash"
    by (simp add: formatDate_def)
  ultimately show ?thesis using d n by simp
qed

theorem unreadable_due_date_is_missing_witness:
  "newDate sampleParse ''next tuesday'' = None \<and>
   daysUntil sampleParse sampleClock (Some ''next tuesday'') = None \<and>
   deriveUiStatus sampleParse sampleClock (sampleRecord\<lparr>due_date := Some ''next tuesday''\<rparr>) = OPEN \<and>
   formatDate sampleParse (\<lambda>tag t. Some ''Feb 29, 2024'') (Some ''next tuesday'') en = emDash"
proof -
  have h: "newDate sampleParse ''next tuesday'' = None"
    by (simp add: newDate_def sampleParse_def)
  have o: "deriveUiStatus sampleParse sampleClock (sampleRecord\<lparr>due_date := None\<rparr>) = OPEN"
    by (simp add: deriveUiStatus_def sampleRecord_def daysUntil_def isNegativeNumber_def)
  show ?thesis
    using unreadable_due_date_is_missing
      [OF h, of sampleClock sampleRecord "\<lambda>tag t. Some ''Feb 29, 2024''" en] h o
    by simp
qed

section \<open>The selection after a change of the mirror\<close>

text \<open>
  C3. After the mirror is replaced, by the rows of a reload (\<open>hydrate\<close>) or by the upsert
  of a mutation (\<open>upsertRow\<close>), and the effects of the render have run, every selected id
  is the id of a row of the new mirror whose raw status is \<open>PENDING_REVIEW\<close>; of the ids
  selected before, exactly those with such a row remain, so an id whose row left the
  status or the mirror is gone.
\<close>

theorem selection_after_mirror_replacement:
  assumes "st' = hydrate t (Some newItems) st \<or> st' = upsertRow t updated st"
  shows "(\<forall>i \<in> set (selectedIds st').
            \<exists>item \<in> set (requirementRows st'). id' item = i \<and> status item = Some ''PENDING_REVIEW'') \<and>
         (\<forall>i \<in> set (selectedIds st).
            (i \<in> set (selectedIds st')) =
            (\<exists>item \<in> set (requirementRows st'). id' item = i \<and> status item = Some ''PENDING_REVIEW'')) \<and>
         set (selectedIds st') \<subseteq> set (selectedIds st)"
proof -
  obtain rows where r: "st' = setRequirementRows t rows st"
    using assms by (auto simp: hydrate_def upsertRow_def)
  show ?thesis
    unfolding r setRequirementRows_rows setRequirementRows_selected purgeSelection_set
    by blast
qed

theorem selection_after_mirror_replacement_witness:
  "selectedIds (hydrate False (Some sampleRows) sampleController) = [''a''] \<and>
   requirementRows (hydrate False (Some sampleRows) sampleController) = sampleRows \<and>
   ''b'' \<in> set (selectedIds sampleController) \<and>
   ''b'' \<notin> set (selectedIds (hydrate False (Some sampleRows) sampleController)) \<and>
   ''c'' \<notin> set (selectedIds (hydrate False (Some sampleRows) sampleController))"
proof -
  have h: "hydrate False (Some sampleRows) sampleController = hydrate False (Some sampleRows) sampleController \<or>
      hydrate False (Some sampleRows) sampleController = upsertRow False (hd sampleRows) sampleController"
    by simp
  have e: "selectedIds (hydrate False (Some sampleRows) sampleController) = [''a'']"
    "requirementRows (hydrate False (Some sampleRows) sampleController) = sampleRows"
    by (simp_all add: hydrate_def setRequirementRows_def runEffects_def selectionEffects_def
        showSelectionColumn_def purgeSelection_def sampleRows_def sampleController_def)
  show ?thesis
    using selection_after_mirror_replacement [OF h] e
    by (simp add: sampleController_def)
qed

section \<open>The status filters\<close>

text \<open>
  C4. A toggle of a status filter leaves "archived" alone in the selection or not in it
  at all: toggling archived on gives the selection of archived only, toggling any other
  bucket removes archived (and adds the bucket if it was not selected). \<open>updateQuery\<close>
  with status filters that contain archived removes the key \<open>status\<close> and writes
  \<open>archived=true\<close>; with status filters without archived it removes the key \<open>archived\<close>.
\<close>

theorem status_filter_archived_exclusive:
  "(archived \<in> set (toggleStatusFilter v prev) \<longrightarrow> toggleStatusFilter v prev = [archived]) \<and>
   (archived \<notin> set prev \<longrightarrow> toggleStatusFilter archived prev = [archived]) \<and>
   (v \<noteq> archived \<longrightarrow>
      archived \<notin> set (toggleStatusFilter v prev) \<and>
      (v \<notin> set prev \<longrightarrow> v \<in> set (toggleStatusFilter v prev))) \<and>
   (archived \<in> set fs \<longrightarrow>
      paramsGet ''status''
        (updateQuery \<lparr>dueFilters = df, statusFilters = Some fs, page = pg\<rparr> ps) = None \<and>
      paramsGet ''archived''
        (updateQuery \<lparr>dueFilters = df, statusFilters = Some fs, page = pg\<rparr> ps) = Some ''true'') \<and>
   (archived \<notin> set fs \<longrightarrow>
      paramsGet ''archived''
        (updateQuery \<lparr>dueFilters = df, statusFilters = Some fs, page = pg\<rparr> ps) = None)"
proof (intro conjI impI)
  assume "archived \<in> set (toggleStatusFilter v prev)"
  then show "toggleStatusFilter v prev = [archived]"
    by (auto simp: toggleStatusFilter_def Let_def split: if_splits)
next
  assume "archived \<notin> set prev"
  then show "toggleStatusFilter archived prev = [archived]"
    by (simp add: toggleStatusFilter_def)
next
  assume "v \<noteq> archived"
  then show "archived \<notin> set (toggleStatusFilter v prev)"
    by (simp add: toggleStatusFilter_def Let_def)
next
  assume "v \<noteq> archived" "v \<notin> set prev"
  then show "v \<in> set (toggleStatusFilter v prev)"
    by (simp add: toggleStatusFilter_def Let_def)
next
  assume a: "archived \<in> set fs"
  show "paramsGet ''status''
      (updateQuery \<lparr>dueFilters = df, statusFilters = Some fs, page = pg\<rparr> ps) = None"
    using a by (simp add: updateQuery_def paramsGet_encodePage encodeStatus_def
        paramsGet_set paramsGet_delete)
  show "paramsGet ''archived''
      (updateQuery \<lparr>dueFilters = df, statusFilters = Some fs, page = pg\<rparr> ps) = Some ''true''"
    using a by (simp add: updateQuery_def paramsGet_encodePage encodeStatus_def paramsGet_set)
next
  assume "archived \<notin> set fs"
  then show "paramsGet ''archived''
      (updateQuery \<lparr>dueFilters = df, statusFilters = Some fs, page = pg\<rparr> ps) = None"
    by (simp add: updateQuery_def paramsGet_encodePage encodeStatus_def paramsGet_delete)
qed

theorem status_filter_archived_exclusive_witness:
  "toggleStatusFilter archived [active, completed] = [archived] \<and>
   toggleStatusFilter triage [archived] = [triage] \<and>
   paramsGet ''status''
     (updateQuery \<lparr>dueFilters = None, statusFilters = Some [archived, active], page = Some 1\<rparr>
        [(''status'', ''OPEN,REVIEW''), (''page'', ''2'')]) = None \<and>
   paramsGet ''archived''
     (updateQuery \<lparr>dueFilters = None, statusFilters = Some [archived, active], page = Some 1\<rparr>
        [(''status'', ''OPEN,REVIEW''), (''page'', ''2'')]) = Some ''true'' \<and>
   paramsGet ''archived''
     (updateQuery \<lparr>dueFilters = None, statusFilters = Some [active], page = Some 1\<rparr>
        [(''archived'', ''true'')]) = None"
proof -
  have t: "toggleStatusFilter triage [archived] = [triage]"
    by (simp add: toggleStatusFilter_def)
  have m: "archived \<notin> set [active, completed]" "archived \<in> set [archived, active]"
    "archived \<notin> set [active]"
    by simp_all
  note A = status_filter_archived_exclusive
        [of archived "[active, completed]" "[archived, active]" None "Some 1"
          "[(''status'', ''OPEN,REVIEW''), (''page'', ''2'')]"]
  note B = status_filter_archived_exclusive
        [of triage "[archived]" "[active]" None "Some 1" "[(''archived'', ''true'')]"]
  show ?thesis using A B t m by blast
qed

section \<open>The due filters\<close>

text \<open>
  C6. Decoding what \<open>updateQuery\<close> encoded for the due filters \<open>f\<close> gives the members of
  \<open>f\<close> in the order of \<open>dueFilterOptions\<close>, whatever the other fields of the patch and the
  previous parameters are: the same set of filters. Decoding any parameters gives a
  selection of \<open>dueFilterOptions\<close> in their order, without repetition, and a token that
  is none of the three contributes nothing.
\<close>

theorem due_filters_round_trip:
  "parseDueFilters (Some (updateQuery \<lparr>dueFilters = Some f, statusFilters = sf, page = pg\<rparr> ps)) =
     filter (\<lambda>d. d \<in> set f) dueFilterOptions \<and>
   set (parseDueFilters (Some (updateQuery \<lparr>dueFilters = Some f, statusFilters = sf, page = pg\<rparr> ps))) =
     set f \<and>
   (\<exists>P. parseDueFilters params = filter P dueFilterOptions) \<and>
   distinct (parseDueFilters params) \<and>
   parseDueFilters (Some [(''due'', ''due30, bogus ,overdue'')]) = [overdue, due30]"
proof -
  let ?q = "updateQuery \<lparr>dueFilters = Some f, statusFilters = sf, page = pg\<rparr> ps"
  have g: "paramsGet ''due'' ?q = (if f = [] then None else Some (join '','' (map dueToken f)))"
    by (simp add: updateQuery_def paramsGet_encodePage paramsGet_encodeStatus encodeDue_def
        paramsGet_set paramsGet_delete)
  have rt: "parseDueFilters (Some ?q) = filter (\<lambda>d. d \<in> set f) dueFilterOptions"
  proof (cases f)
    case Nil
    then show ?thesis using g by (simp add: parseDueFilters_def)
  next
    case (Cons a as)
    have ne: "join '','' (map dueToken f) \<noteq> []"
      unfolding Cons using dueToken_nonempty [of a] by (simp add: join_nonempty)
    have "splitOn (CHR '','') (join [CHR '',''] (map dueToken f)) = map dueToken f"
      using Cons by (intro splitOn_join) (auto simp: dueToken_no_comma)
    then have tk: "map trim (splitOn (CHR '','') (join '','' (map dueToken f))) = map dueToken f"
      by (simp add: trim_dueToken)
    have fne: "f \<noteq> []" using Cons by simp
    have "parseDueFilters (Some ?q) =
        filter (\<lambda>d. dueToken d \<in>
            set (map trim (splitOn (CHR '','') (join '','' (map dueToken f))))) dueFilterOptions"
      using g ne fne by (simp add: parseDueFilters_def Let_def del: set_map)
    also have "\<dots> = filter (\<lambda>d. dueToken d \<in> set (map dueToken f)) dueFilterOptions"
      by (simp only: tk)
    also have "\<dots> = filter (\<lambda>d. d \<in> set f) dueFilterOptions"
      by (simp add: dueToken_mem)
    finally show ?thesis .
  qed
  have all: "set dueFilterOptions = UNIV"
  proof -
    have "d \<in> set dueFilterOptions" for d by (cases d) (simp_all add: dueFilterOptions_def)
    then show ?thesis by blast
  qed
  have st: "set (parseDueFilters (Some ?q)) = set f"
    unfolding rt using all by auto
  have sel: "\<exists>P. parseDueFilters params = filter P dueFilterOptions"
  proof (cases "parseDueFilters params = []")
    case True
    then have "parseDueFilters params = filter (\<lambda>d. False) dueFilterOptions" by simp
    then show ?thesis by blast
  next
    case False
    then obtain ps' raw where "params = Some ps'" "paramsGet ''due'' ps' = Some raw" "raw \<noteq> []"
      by (auto simp: parseDueFilters_def split: option.splits if_splits)
    then have "parseDueFilters params =
        filter (\<lambda>d. dueToken d \<in> set (map trim (splitOn (CHR '','') raw))) dueFilterOptions"
      by (simp add: parseDueFilters_def Let_def)
    then show ?thesis by blast
  qed
  have di: "distinct (parseDueFilters params)"
  proof -
    obtain P where "parseDueFilters params = filter P dueFilterOptions" using sel by blast
    then show ?thesis by (simp add: dueFilterOptions_def)
  qed
  have ex: "parseDueFilters (Some [(''due'', ''due30, bogus ,overdue'')]) = [overdue, due30]"
    by (simp add: parseDueFilters_def paramsGet_def Let_def dueFilterOptions_def trim_def
        trimStart_def trimEnd_def wsLen_def whiteSpace_def)
  show ?thesis using rt st sel di ex by blast
qed

theorem due_filters_round_trip_witness:
  "parseDueFilters
     (Some (updateQuery \<lparr>dueFilters = Some [due30, overdue, due30], statusFilters = None, page = None\<rparr>
        [(''due'', ''due7''), (''page'', ''2'')])) = [overdue, due30]"
  using due_filters_round_trip [of "[due30, overdue, due30]" None None "[(''due'', ''due7''), (''page'', ''2'')]" None]
  by (simp add: dueFilterOptions_def)

section \<open>The page\<close>

text \<open>
  C5. The page shown is to lie between 1 and \<open>max(1, ceil(total / 10))\<close>, a page
  parameter that is not a number or is below 1 resolving to 1 and a page beyond the
  last being shown as the last. With an answer of the list endpoint loaded this holds
  of the page shown, since the endpoint clamps it (\<open>endpoint_page_in_range\<close>). The
  component itself does not clamp, and it departs from the rule at two inputs.

  For \<open>?page=5\<close> and no answer loaded (the prefetch failed and the request of the
  component is pending or has failed, so the mirror is empty) the page shown is the
  requested page 5 while the page count is 1: the pagination reads \<open>5 / 1\<close>, and
  \<open>goTo\<close> refuses the step back to page 4. (\<open>permits-client\<close> computes
  \<open>Math.min(page, pageCount)\<close> at the same place.)

  For \<open>?page=3abc\<close> \<open>resolvePage\<close> gives 3, the digits \<open>parseInt\<close> reads before \<open>abc\<close>,
  and not 1; the component requests page 3 and, of the 25 records of the scenario,
  shows page 3. (The
  server page resolves the same parameter with \<open>Number.isInteger(Number(pageParam))\<close>,
  to 1.)
\<close>

theorem page_shown_outside_page_range:
  "resolvePage (Some samplePageQuery) = Fin 5 \<and>
   currentPage None (resolvePage (Some samplePageQuery)) = Fin 5 \<and>
   pageCount (totalItems None []) = 1 \<and>
   jsLess (Fin (of_int (pageCount (totalItems None []))))
     (currentPage None (resolvePage (Some samplePageQuery))) \<and>
   goTo (pageCount (totalItems None [])) (Fin 4) = None \<and>
   resolvePage (Some samplePrefixQuery) = Fin 3 \<and>
   pageNo (pagination (mockApiFetchRequirements sampleParse sampleClock sampleMock
     (queryParams (resolvePage (Some samplePrefixQuery)) []))) = Fin 3"
proof -
  have r5: "resolvePage (Some samplePageQuery) = Fin 5"
    by (simp add: resolvePage_def samplePageQuery_def paramsGet_def parseInt10_def trimStart_def
        wsLen_def whiteSpace_def isDigit_def digitsValue_def toDouble_def bitLength.simps)
  have r3: "resolvePage (Some samplePrefixQuery) = Fin 3"
    by (simp add: resolvePage_def samplePrefixQuery_def paramsGet_def parseInt10_def trimStart_def
        wsLen_def whiteSpace_def isDigit_def digitsValue_def toDouble_def bitLength.simps)
  have c: "pageCount (totalItems None []) = 1"
    by (simp add: pageCount_def totalItems_def ceilDiv_def PAGE_SIZE_def)
  have s: "currentPage None (Fin 5) = Fin 5"
    by (simp add: currentPage_def)
  have g: "goTo 1 (Fin 4) = None"
    by (simp add: goTo_def)
  have e: "pageNo (pagination (mockApiFetchRequirements sampleParse sampleClock sampleMock
     (queryParams (Fin 3) []))) = Fin 3"
    by (simp add: mockApiFetchRequirements_def sampleMock_def queryParams_def Let_def
      PAGE_SIZE_def MathMax_def MathMin_def ceilDiv_def)
  show ?thesis
    by (simp add: r5 r3 c s g e)
qed

section \<open>Bulk triage save\<close>

text \<open>
  C7. \<open>handleSubmit\<close> rejects, with a toast and without calling \<open>onSubmit\<close> (the only
  network call): a form without a status; a form without a frequency; a form without a
  due date unless the frequency is \<open>BEFORE_EACH_USE\<close> or \<open>ONE_TIME\<close>; and, for a frequency
  that starts with \<open>EVERY_N_\<close> (\<open>EVERY_N_WEEKS\<close> among them), a form without an interval
  or with an interval that is not a number or is a number not above 0. With a status, a due date that is
  a date, an anchor date that is a date if there is one, the interval "2" and the
  frequency \<open>EVERY_N_DAYS\<close>, \<open>EVERY_N_WEEKS\<close> or \<open>EVERY_N_MONTHS\<close>, \<open>onSubmit\<close> receives a
  payload whose \<open>anchor_value\<close> has \<open>interval\<close> 2 and \<open>days\<close>, \<open>weeks\<close> or \<open>months\<close> 2.
\<close>

theorem triage_save_validation:
  "(\<not> truthy (statusF form) \<longrightarrow>
      handleSubmit parseDate toISOString other selected form = Rejected ''triage.statusRequired'') \<and>
   (truthy (statusF form) \<and> \<not> truthy (frequency form) \<longrightarrow>
      handleSubmit parseDate toISOString other selected form = Rejected ''triage.frequencyRequired'') \<and>
   (truthy (statusF form) \<and> frequency form = Some freq \<and> freq \<noteq> [] \<and>
    freq \<noteq> ''BEFORE_EACH_USE'' \<and> freq \<noteq> ''ONE_TIME'' \<and> \<not> truthy (dueDate form) \<longrightarrow>
      handleSubmit parseDate toISOString other selected form = Rejected ''triage.dueRequired'') \<and>
   (frequency form = Some freq \<and> startsWith freq ''EVERY_N_'' \<and>
    (\<not> truthy (interval form) \<or>
     toNumber other (orEmpty (interval form)) = NaN \<or>
     (\<exists>q. toNumber other (orEmpty (interval form)) = Fin q \<and> q \<le> 0)) \<longrightarrow>
      (\<exists>key. handleSubmit parseDate toISOString other selected form = Rejected key)) \<and>
   (truthy (statusF form) \<and> frequency form = Some freq \<and>
    (freq, unit) \<in> {(''EVERY_N_DAYS'', ''days''), (''EVERY_N_WEEKS'', ''weeks''),
                     (''EVERY_N_MONTHS'', ''months'')} \<and>
    interval form = Some ''2'' \<and>
    truthy (dueDate form) \<and> newDate parseDate (orEmpty (dueDate form)) \<noteq> None \<and>
    (truthy (anchorType form) \<and> truthy (anchorDate form) \<longrightarrow>
       newDate parseDate (orEmpty (anchorDate form)) \<noteq> None) \<longrightarrow>
      (\<exists>p obj. handleSubmit parseDate toISOString other selected form = Submitted p \<and>
         requirement_ids p = map id' selected \<and>
         anchor_valueP p = Some obj \<and>
         objGet ''interval'' obj = Some (JNumber (Fin 2)) \<and>
         objGet unit obj = Some (JNumber (Fin 2))))"
proof (intro conjI impI)
  assume "\<not> truthy (statusF form)"
  then show "handleSubmit parseDate toISOString other selected form = Rejected ''triage.statusRequired''"
    by (simp add: handleSubmit_def)
next
  assume "truthy (statusF form) \<and> \<not> truthy (frequency form)"
  then show "handleSubmit parseDate toISOString other selected form = Rejected ''triage.frequencyRequired''"
    by (auto simp: handleSubmit_def Let_def truthy_def orEmpty_def split: option.splits)
next
  assume "truthy (statusF form) \<and> frequency form = Some freq \<and> freq \<noteq> [] \<and>
    freq \<noteq> ''BEFORE_EACH_USE'' \<and> freq \<noteq> ''ONE_TIME'' \<and> \<not> truthy (dueDate form)"
  then show "handleSubmit parseDate toISOString other selected form = Rejected ''triage.dueRequired''"
    by (simp add: handleSubmit_def Let_def orEmpty_def)
next
  assume h: "frequency form = Some freq \<and> startsWith freq ''EVERY_N_'' \<and>
    (\<not> truthy (interval form) \<or>
     toNumber other (orEmpty (interval form)) = NaN \<or>
     (\<exists>q. toNumber other (orEmpty (interval form)) = Fin q \<and> q \<le> 0))"
  then have f: "orEmpty (frequency form) = freq" and s: "startsWith freq ''EVERY_N_''"
    by (simp_all add: orEmpty_def)
  define iv where "iv = (if truthy (interval form)
      then Some (toNumber other (orEmpty (interval form))) else None)"
  have bad: "\<not> numberTruthy iv \<or> NumberIsNaN iv \<or> leZero iv"
    using h by (auto simp: iv_def numberTruthy_def leZero_def NumberIsNaN_def)
  show "\<exists>key. handleSubmit parseDate toISOString other selected form = Rejected key"
    using bad s by (simp add: handleSubmit_def Let_def f iv_def [symmetric])
next
  assume h: "truthy (statusF form) \<and> frequency form = Some freq \<and>
    (freq, unit) \<in> {(''EVERY_N_DAYS'', ''days''), (''EVERY_N_WEEKS'', ''weeks''),
                     (''EVERY_N_MONTHS'', ''months'')} \<and>
    interval form = Some ''2'' \<and>
    truthy (dueDate form) \<and> newDate parseDate (orEmpty (dueDate form)) \<noteq> None \<and>
    (truthy (anchorType form) \<and> truthy (anchorDate form) \<longrightarrow>
       newDate parseDate (orEmpty (anchorDate form)) \<noteq> None)"
  then have f: "orEmpty (frequency form) = freq" by (simp add: orEmpty_def)
  have fu: "(freq, unit) \<in> {(''EVERY_N_DAYS'', ''days''), (''EVERY_N_WEEKS'', ''weeks''),
                     (''EVERY_N_MONTHS'', ''months'')}"
    using h by blast
  then have s: "startsWith freq ''EVERY_N_''" "freq \<noteq> []" "freq \<noteq> ''BEFORE_EACH_USE''"
    "freq \<noteq> ''ONE_TIME''"
    by (auto simp: startsWith_def)
  have iv: "truthy (interval form)" "toNumber other (orEmpty (interval form)) = Fin 2"
    using h by (simp_all add: truthy_def orEmpty_def toNumber_two)
  have ok: "numberTruthy (Some (Fin 2))" "\<not> NumberIsNaN (Some (Fin 2))" "\<not> leZero (Some (Fin 2))"
    by (simp_all add: numberTruthy_def NumberIsNaN_def leZero_def)
  obtain t where due: "newDate parseDate (orEmpty (dueDate form)) = Some t"
    using h by blast
  have dueIso: "isoField parseDate toISOString (dueDate form) = Some (Some (toISOString t))"
    using h due by (simp add: isoField_def)
  obtain anchorIso where an:
    "(if truthy (anchorType form) then isoField parseDate toISOString (anchorDate form)
      else Some None) = Some anchorIso"
    using h by (cases "truthy (anchorType form)"; cases "truthy (anchorDate form)")
      (auto simp: isoField_def)
  have hs: "handleSubmit parseDate toISOString other selected form =
      buildPayload parseDate toISOString selected form freq True (Some (Fin 2))"
    using h s iv ok by (simp add: handleSubmit_def Let_def orEmpty_def)
  define a0 where "a0 =
     (case (if truthy (anchorType form) then map_option (\<lambda>d. [(''date'', JString d)]) anchorIso
            else None) of
        None \<Rightarrow> [] | Some obj \<Rightarrow> obj)"
  define a2 where "a2 =
     (if freq = ''EVERY_N_DAYS'' then objSet ''days'' (JNumber (Fin 2)) (objSet ''interval'' (JNumber (Fin 2)) a0)
      else if freq = ''EVERY_N_WEEKS'' then objSet ''weeks'' (JNumber (Fin 2)) (objSet ''interval'' (JNumber (Fin 2)) a0)
      else if freq = ''EVERY_N_MONTHS'' then objSet ''months'' (JNumber (Fin 2)) (objSet ''interval'' (JNumber (Fin 2)) a0)
      else objSet ''interval'' (JNumber (Fin 2)) a0)"
  have "\<exists>p. buildPayload parseDate toISOString selected form freq True (Some (Fin 2)) = Submitted p \<and>
      requirement_ids p = map id' selected \<and> anchor_valueP p = Some a2"
    using an dueIso ok(1) s(2)
    by (cases "truthy (anchorType form)"; cases anchorIso)
      (simp_all add: buildPayload_def Let_def a2_def a0_def truthy_def)
  moreover have "objGet ''interval'' a2 = Some (JNumber (Fin 2))"
    using fu by (auto simp: a2_def objGet_objSet)
  moreover have "objGet unit a2 = Some (JNumber (Fin 2))"
    using fu by (auto simp: a2_def objGet_objSet)
  ultimately show "\<exists>p obj. handleSubmit parseDate toISOString other selected form = Submitted p \<and>
         requirement_ids p = map id' selected \<and>
         anchor_valueP p = Some obj \<and>
         objGet ''interval'' obj = Some (JNumber (Fin 2)) \<and>
         objGet unit obj = Some (JNumber (Fin 2))"
    unfolding hs by blast
qed

theorem triage_save_validation_witness:
  "frequency (sampleForm\<lparr>interval := None\<rparr>) = Some ''EVERY_N_WEEKS'' \<and>
   \<not> truthy (interval (sampleForm\<lparr>interval := None\<rparr>)) \<and>
   (\<exists>key. handleSubmit sampleParse (\<lambda>t. ''2024-02-29T10:00:00.000Z'') (\<lambda>s. NaN) sampleRows
      (sampleForm\<lparr>interval := None\<rparr>) = Rejected key) \<and>
   interval sampleForm = Some ''2'' \<and>
   (\<exists>p obj. handleSubmit sampleParse (\<lambda>t. ''2024-02-29T10:00:00.000Z'') (\<lambda>s. NaN) sampleRows
      sampleForm = Submitted p \<and>
      requirement_ids p = map id' sampleRows \<and>
      anchor_valueP p = Some obj \<and>
      objGet ''interval'' obj = Some (JNumber (Fin 2)) \<and>
      objGet ''weeks'' obj = Some (JNumber (Fin 2)))"
proof -
  have a: "frequency (sampleForm\<lparr>interval := None\<rparr>) = Some ''EVERY_N_WEEKS'' \<and>
      startsWith ''EVERY_N_WEEKS'' ''EVERY_N_'' \<and>
      (\<not> truthy (interval (sampleForm\<lparr>interval := None\<rparr>)) \<or>
       toNumber (\<lambda>s. NaN) (orEmpty (interval (sampleForm\<lparr>interval := None\<rparr>))) = NaN \<or>
       (\<exists>q. toNumber (\<lambda>s. NaN) (orEmpty (interval (sampleForm\<lparr>interval := None\<rparr>))) = Fin q \<and> q \<le> 0))"
    by (simp add: sampleForm_def startsWith_def truthy_def)
  have b: "truthy (statusF sampleForm) \<and> frequency sampleForm = Some ''EVERY_N_WEEKS'' \<and>
      (''EVERY_N_WEEKS'', ''weeks'') \<in> {(''EVERY_N_DAYS'', ''days''), (''EVERY_N_WEEKS'', ''weeks''),
                     (''EVERY_N_MONTHS'', ''months'')} \<and>
      interval sampleForm = Some ''2'' \<and>
      truthy (dueDate sampleForm) \<and> newDate sampleParse (orEmpty (dueDate sampleForm)) \<noteq> None \<and>
      (truthy (anchorType sampleForm) \<and> truthy (anchorDate sampleForm) \<longrightarrow>
         newDate sampleParse (orEmpty (anchorDate sampleForm)) \<noteq> None)"
    by (simp add: sampleForm_def truthy_def orEmpty_def newDate_def sampleParse_def TimeClip_def
        maxTime_def)
  note A = triage_save_validation
      [of "sampleForm\<lparr>interval := None\<rparr>" sampleParse "\<lambda>t. ''2024-02-29T10:00:00.000Z''"
        "\<lambda>s. NaN" sampleRows "''EVERY_N_WEEKS''" "''weeks''"]
  note B = triage_save_validation
      [of sampleForm sampleParse "\<lambda>t. ''2024-02-29T10:00:00.000Z''"
        "\<lambda>s. NaN" sampleRows "''EVERY_N_WEEKS''" "''weeks''"]
  have 1: "\<exists>key. handleSubmit sampleParse (\<lambda>t. ''2024-02-29T10:00:00.000Z'') (\<lambda>s. NaN) sampleRows
      (sampleForm\<lparr>interval := None\<rparr>) = Rejected key"
    using A a by blast
  have 2: "\<exists>p obj. handleSubmit sampleParse (\<lambda>t. ''2024-02-29T10:00:00.000Z'') (\<lambda>s. NaN) sampleRows
      sampleForm = Submitted p \<and>
      requirement_ids p = map id' sampleRows \<and>
      anchor_valueP p = Some obj \<and>
      objGet ''interval'' obj = Some (JNumber (Fin 2)) \<and>
      objGet ''weeks'' obj = Some (JNumber (Fin 2))"
    using B b by blast
  have nt: "\<not> truthy (interval (sampleForm\<lparr>interval := None\<rparr>))"
    by (simp add: truthy_def)
  have fr: "frequency (sampleForm\<lparr>interval := None\<rparr>) = Some ''EVERY_N_WEEKS''"
    and iv: "interval sampleForm = Some ''2''"
    using a b by blast+
  show ?thesis using fr nt 1 iv 2 by (intro conjI)
qed

section \<open>Archiving a record\<close>

text \<open>
  C8. \<open>archiveRequirement\<close> on a record whose archive state is "archived" or whose raw
  status is \<open>ARCHIVED\<close> changes nothing and shows nothing. On any other record, a reason
  that trims to the empty string gives the toast of the missing reason and nothing
  else: no request, the mirror and the selection as they were. The reason
  "  not applicable  " trims to "not applicable", and the request for the record then
  carries "not applicable" as its reason. \<open>handleDismissClick\<close> of the triage panel
  treats its reason the same way: a toast for a reason that trims to nothing, the
  trimmed reason handed on otherwise.
\<close>

theorem archive_reason_required:
  "(archive_state r = Some ''archived'' \<or> status r = Some ''ARCHIVED'' \<longrightarrow>
      archiveRequirement t promptAnswer api latest r st = (st, [])) \<and>
   (archive_state r \<noteq> Some ''archived'' \<and> status r \<noteq> Some ''ARCHIVED'' \<and> trim reasonInput = [] \<longrightarrow>
      archiveRequirement t (Some reasonInput) api latest r st =
        (st, [ToastError ''requirements.detail.archiveReasonRequired''])) \<and>
   trim ''  not applicable  '' = ''not applicable'' \<and>
   (archive_state r \<noteq> Some ''archived'' \<and> status r \<noteq> Some ''ARCHIVED'' \<longrightarrow>
      (\<exists>st' rest. archiveRequirement t (Some ''  not applicable  '') api latest r st =
         (st', ApiPost (archivePath r) ''not applicable'' # rest))) \<and>
   (trim reasonInput = [] \<longrightarrow>
      handleDismissClick True True (Some reasonInput) selected =
        DismissToastError ''requirements.detail.archiveReasonRequired'') \<and>
   handleDismissClick True True (Some ''  not applicable  '') selected =
     DismissCall selected ''not applicable''"
proof -
  have tr: "trim ''  not applicable  '' = ''not applicable''"
    by (simp add: trim_def trimStart_def trimEnd_def wsLen_def whiteSpace_def)
  have 1: "archive_state r = Some ''archived'' \<or> status r = Some ''ARCHIVED'' \<longrightarrow>
      archiveRequirement t promptAnswer api latest r st = (st, [])"
    by (simp add: archiveRequirement_def)
  have 2: "archive_state r \<noteq> Some ''archived'' \<and> status r \<noteq> Some ''ARCHIVED'' \<and> trim reasonInput = [] \<longrightarrow>
      archiveRequirement t (Some reasonInput) api latest r st =
        (st, [ToastError ''requirements.detail.archiveReasonRequired''])"
    by (simp add: archiveRequirement_def)
  have 3: "archive_state r \<noteq> Some ''archived'' \<and> status r \<noteq> Some ''ARCHIVED'' \<longrightarrow>
      (\<exists>st' rest. archiveRequirement t (Some ''  not applicable  '') api latest r st =
         (st', ApiPost (archivePath r) ''not applicable'' # rest))"
    by (simp add: archiveRequirement_def tr Let_def split: sum.splits)
  have 4: "trim reasonInput = [] \<longrightarrow>
      handleDismissClick True True (Some reasonInput) selected =
        DismissToastError ''requirements.detail.archiveReasonRequired''"
    by (simp add: handleDismissClick_def)
  have 5: "handleDismissClick True True (Some ''  not applicable  '') selected =
     DismissCall selected ''not applicable''"
    by (simp add: handleDismissClick_def tr)
  show ?thesis using 1 2 tr 3 4 5 by blast
qed

theorem archive_reason_required_witness:
  "archiveRequirement False (Some ''x'') (\<lambda>path reason. Inl ''unreachable'') (Inr None)
     (sampleRecord\<lparr>status := Some ''ARCHIVED''\<rparr>) sampleController = (sampleController, []) \<and>
   trim [CHR 0x20, CHR 0x09, CHR 0x20] = [] \<and>
   archiveRequirement False (Some [CHR 0x20, CHR 0x09, CHR 0x20])
     (\<lambda>path reason. Inl ''unreachable'') (Inr None) sampleRecord sampleController =
     (sampleController, [ToastError ''requirements.detail.archiveReasonRequired'']) \<and>
   (\<exists>st' rest. archiveRequirement False (Some ''  not applicable  '')
      (\<lambda>path reason. Inr (sampleRecord\<lparr>archive_state := Some ''archived''\<rparr>)) (Inr None)
      sampleRecord sampleController =
      (st', ApiPost ''/requirements/r1/archive'' ''not applicable'' # rest))"
proof -
  have a: "archive_state (sampleRecord\<lparr>status := Some ''ARCHIVED''\<rparr>) = Some ''archived'' \<or>
      status (sampleRecord\<lparr>status := Some ''ARCHIVED''\<rparr>) = Some ''ARCHIVED''"
    by (simp add: sampleRecord_def)
  have b: "archive_state sampleRecord \<noteq> Some ''archived'' \<and> status sampleRecord \<noteq> Some ''ARCHIVED''"
    by (simp add: sampleRecord_def)
  have c: "trim [CHR 0x20, CHR 0x09, CHR 0x20] = []"
    by (simp add: trim_def trimStart_def trimEnd_def wsLen_def whiteSpace_def)
  have p: "archivePath sampleRecord = ''/requirements/r1/archive''"
    by (simp add: archivePath_def sampleRecord_def)
  note A = archive_reason_required
      [of "sampleRecord\<lparr>status := Some ''ARCHIVED''\<rparr>" False "Some ''x''"
        "\<lambda>path reason. Inl ''unreachable''" "Inr None" sampleController
        "[CHR 0x20, CHR 0x09, CHR 0x20]" "[]"]
  note B = archive_reason_required
      [of sampleRecord False "Some ''x''"
        "\<lambda>path reason. Inl ''unreachable''" "Inr None" sampleController
        "[CHR 0x20, CHR 0x09, CHR 0x20]" "[]"]
  note C = archive_reason_required
      [of sampleRecord False "Some ''x''"
        "\<lambda>path reason. Inr (sampleRecord\<lparr>archive_state := Some ''archived''\<rparr>)" "Inr None"
        sampleController "[CHR 0x20, CHR 0x09, CHR 0x20]" "[]"]
  have 1: "archiveRequirement False (Some ''x'') (\<lambda>path reason. Inl ''unreachable'') (Inr None)
     (sampleRecord\<lparr>status := Some ''ARCHIVED''\<rparr>) sampleController = (sampleController, [])"
    using A a by blast
  have 2: "archiveRequirement False (Some [CHR 0x20, CHR 0x09, CHR 0x20])
     (\<lambda>path reason. Inl ''unreachable'') (Inr None) sampleRecord sampleController =
     (sampleController, [ToastError ''requirements.detail.archiveReasonRequired''])"
    using B b c by blast
  have 3: "\<exists>st' rest. archiveRequirement False (Some ''  not applicable  '')
      (\<lambda>path reason. Inr (sampleRecord\<lparr>archive_state := Some ''archived''\<rparr>)) (Inr None)
      sampleRecord sampleController =
      (st', ApiPost (archivePath sampleRecord) ''not applicable'' # rest)"
    using C b by blast
  show ?thesis using 1 2 3 c unfolding p by blast
qed

end
